theory Spec2Isabelle
  imports Main "HOL-Library.Multiset" "HOL-Library.Sublist"
begin

text \<open>
  The orchestration engine of the AI worker system: the status state machine with its
  transition tables, the task executor with its dependency sort, the pooling tool adapter
  and the polling scheduler, each embedded from its TypeScript source, followed by the
  properties proved of them.
\<close>

section \<open>Status transition tables (src/types/constants.ts)\<close>

text \<open>
  Statuses are plain strings, as in the source (\<open>T extends string\<close>); the three
  transition tables are \<open>Record<string, string[]>\<close> objects, modelled as association
  lists in the order of the source's object literals.
\<close>

datatype domain = Clarification | Feedback | Task

definition CLARIFICATION_TRANSITIONS :: "(string \<times> string list) list" where
  "CLARIFICATION_TRANSITIONS =
     [(''pending'', [''processing'', ''cancelled'']),
      (''processing'', [''awaiting'', ''confirmed'', ''failed'']),
      (''awaiting'', [''confirmed'', ''cancelled'', ''expired'']),
      (''confirmed'', []),
      (''cancelled'', []),
      (''expired'', []),
      (''failed'', [''pending''])]"

definition FEEDBACK_TRANSITIONS :: "(string \<times> string list) list" where
  "FEEDBACK_TRANSITIONS =
     [(''pending'', [''analyzing'', ''failed'']),
      (''analyzing'', [''executing'', ''failed'']),
      (''executing'', [''completed'', ''failed'']),
      (''completed'', []),
      (''failed'', [''pending''])]"

definition TASK_TRANSITIONS :: "(string \<times> string list) list" where
  "TASK_TRANSITIONS =
     [(''pending'', [''in_progress'']),
      (''in_progress'', [''completed'', ''failed'']),
      (''completed'', []),
      (''failed'', [''pending''])]"

text \<open>
  The tables are ordinary object literals, so \<open>transitions[currentStatus]\<close> also finds the
  properties inherited from \<open>Object.prototype\<close>. Each of them is a truthy value that is
  not an array, so \<open>allowed.includes(newStatus)\<close> raises a \<open>TypeError\<close> there.
\<close>

definition objectPrototypeKeys :: "string list" where
  "objectPrototypeKeys =
     [''constructor'', ''__defineGetter__'', ''__defineSetter__'', ''hasOwnProperty'',
      ''__lookupGetter__'', ''__lookupSetter__'', ''isPrototypeOf'',
      ''propertyIsEnumerable'', ''toString'', ''valueOf'', ''__proto__'',
      ''toLocaleString'']"

datatype js_error = TypeError string | Error string

definition transitionsOf :: "domain \<Rightarrow> (string \<times> string list) list" where
  "transitionsOf ty =
     (if ty = Clarification then CLARIFICATION_TRANSITIONS
      else if ty = Feedback then FEEDBACK_TRANSITIONS
      else TASK_TRANSITIONS)"

definition canTransition :: "string \<Rightarrow> string \<Rightarrow> domain \<Rightarrow> js_error + bool" where
  "canTransition currentStatus newStatus ty =
     (case map_of (transitionsOf ty) currentStatus of
        Some allowed \<Rightarrow> Inr (newStatus \<in> set allowed)
      | None \<Rightarrow>
          if currentStatus \<in> set objectPrototypeKeys
          then Inl (TypeError ''allowed.includes is not a function'')
          else Inr (newStatus \<in> set []))"

definition isTerminalStatus :: "string \<Rightarrow> bool" where
  "isTerminalStatus status \<longleftrightarrow>
     status \<in> set [''confirmed'', ''cancelled'', ''expired'', ''completed'']"

definition isFailedStatus :: "string \<Rightarrow> bool" where
  "isFailedStatus status \<longleftrightarrow> status = ''failed'' \<or> status = ''expired''"

section \<open>State machine (src/core/state-machine.ts)\<close>

record history_entry =
  status :: string
  timestamp :: string

record StateMachine =
  currentStatus :: string
  domainType :: domain
  statusHistory :: "history_entry list"

record StateTransitionResult =
  success :: bool
  newStatus :: "string option"
  error :: "string option"

text \<open>
  \<open>new Date().toISOString()\<close> is read from the environment; every operation that
  records a state takes the timestamp it would read as the argument \<open>now\<close>.
\<close>

definition recordState :: "string \<Rightarrow> string \<Rightarrow> StateMachine \<Rightarrow> StateMachine" where
  "recordState now st sm =
     sm\<lparr>statusHistory := statusHistory sm @ [\<lparr>status = st, timestamp = now\<rparr>]\<rparr>"

definition newStateMachine :: "string \<Rightarrow> string \<Rightarrow> domain \<Rightarrow> StateMachine" where
  "newStateMachine now initialStatus ty =
     recordState now initialStatus
       \<lparr>currentStatus = initialStatus, domainType = ty, statusHistory = []\<rparr>"

definition getStatus :: "StateMachine \<Rightarrow> string" where
  "getStatus sm = currentStatus sm"

definition getHistory :: "StateMachine \<Rightarrow> history_entry list" where
  "getHistory sm = statusHistory sm"

text \<open>
  \<open>transition\<close> returns the result object (or the exception raised inside
  \<open>canTransition\<close>) together with the machine after the call.
\<close>

definition transition ::
  "string \<Rightarrow> string \<Rightarrow> StateMachine \<Rightarrow> (js_error + StateTransitionResult) \<times> StateMachine" where
  "transition now newSt sm =
     (if currentStatus sm = newSt
      then (Inr \<lparr>success = True, newStatus = Some newSt, error = None\<rparr>, sm)
      else
        (case canTransition (currentStatus sm) newSt (domainType sm) of
           Inl e \<Rightarrow> (Inl e, sm)
         | Inr ok \<Rightarrow>
             if \<not> ok
             then (Inr \<lparr>success = False, newStatus = None,
                         error = Some (''Invalid state transition from '' @ currentStatus sm
                                        @ '' to '' @ newSt)\<rparr>, sm)
             else (Inr \<lparr>success = True, newStatus = Some newSt, error = None\<rparr>,
                   recordState now newSt (sm\<lparr>currentStatus := newSt\<rparr>))))"

definition forceTransition ::
  "string \<Rightarrow> string \<Rightarrow> StateMachine \<Rightarrow> StateTransitionResult \<times> StateMachine" where
  "forceTransition now newSt sm =
     (\<lparr>success = True, newStatus = Some newSt, error = None\<rparr>,
      recordState now newSt (sm\<lparr>currentStatus := newSt\<rparr>))"

definition isTerminal :: "StateMachine \<Rightarrow> bool" where
  "isTerminal sm = isTerminalStatus (currentStatus sm)"

definition isFailed :: "StateMachine \<Rightarrow> bool" where
  "isFailed sm = isFailedStatus (currentStatus sm)"

text \<open>A client's call on a machine, with the timestamp the call reads.\<close>

datatype sm_call = Transition string string | ForceTransition string string

fun applyCall :: "StateMachine \<Rightarrow> sm_call \<Rightarrow> StateMachine" where
  "applyCall sm (Transition now s) = snd (transition now s sm)"
| "applyCall sm (ForceTransition now s) = snd (forceTransition now s sm)"

definition applyCalls :: "StateMachine \<Rightarrow> sm_call list \<Rightarrow> StateMachine" where
  "applyCalls sm cs = foldl applyCall sm cs"

text \<open>The subclass \<open>TaskStateMachine\<close>: a machine of the task domain.\<close>

definition newTaskStateMachine :: "string \<Rightarrow> string \<Rightarrow> StateMachine" where
  "newTaskStateMachine now initialStatus = newStateMachine now initialStatus Task"

definition canStart :: "StateMachine \<Rightarrow> bool" where
  "canStart sm \<longleftrightarrow> getStatus sm = ''pending''"

text \<open>The invariant behind the history claim.\<close>

definition historyTracks :: "string \<Rightarrow> StateMachine \<Rightarrow> bool" where
  "historyTracks initialStatus sm \<longleftrightarrow>
     getHistory sm \<noteq> [] \<and>
     status (hd (getHistory sm)) = initialStatus \<and>
     status (last (getHistory sm)) = getStatus sm"

section \<open>Task executor (src/executors/task-executor.ts)\<close>

record TaskResult =
  exitCode_t :: int
  output_t :: string
  duration_t :: int
  tool_t :: "string option"
  error_t :: "string option"

record ExecutableTask =
  taskId :: string
  title :: string
  description :: string
  files :: "string list"
  project :: string
  dependsOn :: "string list"
  taskStatus :: string
  result :: "TaskResult option"
  startedAt :: "string option"
  completedAt :: "string option"

record ExecuteResult =
  exitCode :: int
  output_x :: string
  error_x :: "string option"
  duration :: int
  tool :: string

subsection \<open>Dependency sort\<close>

text \<open>
  The state of \<open>sortTasksByDependency\<close>: the arrays \<open>sorted\<close> and \<open>remaining\<close> and
  the set \<open>processed\<close>, in this order.
\<close>

type_synonym sort_state = "ExecutableTask list \<times> string set \<times> ExecutableTask list"

text \<open>
  The inner loop \<open>for (let i = remaining.length - 1; i >= 0; i--)\<close>: \<open>scanPass n\<close> has
  the indices \<open>n - 1, \<dots>, 0\<close> still to visit. \<open>remaining.splice(i, 1)\<close> removes the
  element at index \<open>i\<close>, which leaves the indices below \<open>i\<close> in place.
\<close>

fun scanPass :: "nat \<Rightarrow> sort_state \<Rightarrow> sort_state" where
  "scanPass 0 st = st"
| "scanPass (Suc i) (srt, processed, remaining) =
     (let task = remaining ! i;
          allDepsProcessed = list_all (\<lambda>dep. dep \<in> processed) (dependsOn task)
      in if allDepsProcessed
         then scanPass i (srt @ [task], insert (taskId task) processed,
                          take i remaining @ drop (Suc i) remaining)
         else scanPass i (srt, processed, remaining))"

text \<open>
  The outer loop \<open>while (remaining.length > 0 && iterations < maxIterations)\<close>; the
  result carries the final value of \<open>iterations\<close>, the number of scan passes made.
\<close>

function sortLoop :: "nat \<Rightarrow> nat \<Rightarrow> sort_state \<Rightarrow> sort_state \<times> nat" where
  "sortLoop maxIterations iterations (srt, processed, remaining) =
     (if length remaining > 0 \<and> iterations < maxIterations
      then sortLoop maxIterations (Suc iterations)
             (scanPass (length remaining) (srt, processed, remaining))
      else ((srt, processed, remaining), iterations))"
  by pat_completeness auto
termination
  by (relation "measure (\<lambda>(m, k, st). m - k)") auto

definition sortRun :: "ExecutableTask list \<Rightarrow> sort_state \<times> nat" where
  "sortRun tasks = sortLoop (length tasks * 2) 0 ([], {}, tasks)"

definition sortTasksByDependency :: "ExecutableTask list \<Rightarrow> ExecutableTask list" where
  "sortTasksByDependency tasks =
     (case sortRun tasks of
        ((srt, processed, remaining), iterations) \<Rightarrow>
          if length remaining > 0 then srt @ remaining else srt)"

definition sortPasses :: "ExecutableTask list \<Rightarrow> nat" where
  "sortPasses tasks = snd (sortRun tasks)"

definition sortPlaced :: "ExecutableTask list \<Rightarrow> ExecutableTask list" where
  "sortPlaced tasks = fst (fst (sortRun tasks))"

definition sortUnplaced :: "ExecutableTask list \<Rightarrow> ExecutableTask list" where
  "sortUnplaced tasks = snd (snd (fst (sortRun tasks)))"

text \<open>
  The state after a number of scan passes from the initial state of the sort; it names
  what each pass adds to \<open>sorted\<close>.
\<close>

definition onePass :: "sort_state \<Rightarrow> sort_state" where
  "onePass st = scanPass (length (snd (snd st))) st"


subsection \<open>Running a bucket\<close>

text \<open>
  The log lines written through \<open>appendLog\<close>, one constructor per message template of
  the source, with the values the template interpolates. Storage calls (\<open>appendLog\<close>,
  \<open>saveTaskResult\<close>) are taken not to fail; what \<open>saveTaskResult\<close> writes is a copy
  of the task object and is not kept separately.
\<close>

datatype log_message =
    LogExecuteBegin nat
  | LogExecuteEnd bool
  | LogGroupBegin string nat
  | LogSkipStatus string string
  | LogSkipDependencies string
  | LogTaskBegin string string
  | LogTaskDone string
  | LogTaskFailed string
  | LogExecFinished string int
  | LogExecException string string

type_synonym log_line = "log_message \<times> string"

text \<open>
  What \<open>aiAdapter.execute(prompt)\<close> does for the executor: it resolves with a result or
  rejects with an error. The executor is modelled against every such behaviour: \<open>ai n t\<close>
  is the outcome of the \<open>n\<close>-th call made by a bucket, for the task \<open>t\<close> whose prompt is
  sent. The clock readings (\<open>new Date().toISOString()\<close>, \<open>Date.now() - startTime\<close>)
  are only written into the task, never read back; \<open>isoNow\<close> and \<open>elapsedMs\<close> stand
  for them.
\<close>

datatype ai_outcome = Resolves ExecuteResult | Rejects string

record clock =
  isoNow :: string
  elapsedMs :: int


fun checkDependenciesOf :: "string list \<Rightarrow> ExecutableTask list \<Rightarrow> bool" where
  "checkDependenciesOf [] allTasks = True"
| "checkDependenciesOf (depId # deps) allTasks =
     (case find (\<lambda>t. taskId t = depId) allTasks of
        None \<Rightarrow> False
      | Some depTask \<Rightarrow>
          if taskStatus depTask \<noteq> ''completed'' then False
          else checkDependenciesOf deps allTasks)"

definition checkDependencies :: "ExecutableTask \<Rightarrow> ExecutableTask list \<Rightarrow> bool" where
  "checkDependencies task allTasks = checkDependenciesOf (dependsOn task) allTasks"

text \<open>The first two assignments of \<open>executeTask\<close>.\<close>

definition markStarted :: "clock \<Rightarrow> ExecutableTask \<Rightarrow> ExecutableTask" where
  "markStarted clk task = task\<lparr>taskStatus := ''in_progress'', startedAt := Some (isoNow clk)\<rparr>"

text \<open>
  \<open>executeTask\<close> mutates the task object; the model returns the task after the call
  with the boolean result and the log lines written.
\<close>

definition executeTask ::
  "clock \<Rightarrow> (ExecutableTask \<Rightarrow> ai_outcome) \<Rightarrow> ExecutableTask \<Rightarrow>
     bool \<times> ExecutableTask \<times> log_line list" where
  "executeTask clk call task =
     (let started = markStarted clk task
      in case call started of
           Resolves res \<Rightarrow>
             (exitCode res = 0,
              started\<lparr>result := Some \<lparr>exitCode_t = 0, output_t = [], duration_t = duration res,
                                       tool_t = Some (tool res), error_t = None\<rparr>,
                      completedAt := Some (isoNow clk),
                      taskStatus := ''completed''\<rparr>,
              [(LogExecFinished (taskId task) (duration res), ''info'')])
         | Rejects msg \<Rightarrow>
             (False,
              started\<lparr>result := Some \<lparr>exitCode_t = 1, output_t = [], duration_t = elapsedMs clk,
                                       tool_t = None, error_t = Some msg\<rparr>,
                      completedAt := Some (isoNow clk),
                      taskStatus := ''failed''\<rparr>,
              [(LogExecException (taskId task) msg, ''error'')]))"

text \<open>
  When \<open>executeTask\<close> returns \<open>false\<close>: the adapter call rejected, or it resolved with
  a non-zero exit code (\<open>return result.exitCode === 0\<close>).
\<close>

definition executionFails :: "ai_outcome \<Rightarrow> bool" where
  "executionFails outcome =
     (case outcome of Resolves res \<Rightarrow> exitCode res \<noteq> 0 | Rejects msg \<Rightarrow> True)"

text \<open>
  What a bucket run leaves behind: its boolean result, the task objects of the bucket (in
  sorted order, as mutated), the log lines it wrote and the number of adapter calls made.
\<close>

record group_run =
  ok :: bool
  tasksAfter :: "ExecutableTask list"
  logged :: "log_line list"
  aiCalls :: nat

text \<open>
  The loop \<open>for (const task of sorted)\<close>. The array \<open>sorted\<close> holds the task objects
  themselves, so \<open>checkDependencies(task, sorted)\<close> sees every status written so far:
  \<open>visited\<close> are the elements already passed (as mutated), \<open>task # rest\<close> the ones to
  come. The local state machine is built from \<open>task.status\<close> and only \<open>canStart\<close> is read
  from it; its later \<open>start\<close>, \<open>complete\<close> and \<open>fail\<close> calls change nothing but that
  local object.
\<close>

fun groupLoop ::
  "clock \<Rightarrow> (nat \<Rightarrow> ExecutableTask \<Rightarrow> ai_outcome) \<Rightarrow> nat \<Rightarrow> log_line list \<Rightarrow>
     ExecutableTask list \<Rightarrow> ExecutableTask list \<Rightarrow> group_run" where
  "groupLoop clk ai n lg visited [] =
     \<lparr>ok = True, tasksAfter = visited, logged = lg, aiCalls = n\<rparr>"
| "groupLoop clk ai n lg visited (task # rest) =
     (let stateMachine = newTaskStateMachine (isoNow clk) (taskStatus task)
      in if \<not> canStart stateMachine
         then groupLoop clk ai n
                (lg @ [(LogSkipStatus (taskId task) (taskStatus task), ''info'')])
                (visited @ [task]) rest
         else if \<not> checkDependencies task (visited @ task # rest)
         then groupLoop clk ai n
                (lg @ [(LogSkipDependencies (taskId task), ''warn'')])
                (visited @ [task]) rest
         else
           (case executeTask clk (ai n) task of
              (res, task', lines) \<Rightarrow>
                let lg' = lg @ [(LogTaskBegin (taskId task) (title task), ''info'')] @ lines
                in if res
                   then groupLoop clk ai (Suc n)
                          (lg' @ [(LogTaskDone (taskId task), ''info'')])
                          (visited @ [task']) rest
                   else \<lparr>ok = False, tasksAfter = visited @ task' # rest,
                         logged = lg' @ [(LogTaskFailed (taskId task), ''error'')],
                         aiCalls = Suc n\<rparr>))"

definition executeTaskGroup ::
  "clock \<Rightarrow> (nat \<Rightarrow> ExecutableTask \<Rightarrow> ai_outcome) \<Rightarrow> ExecutableTask list \<Rightarrow> string \<Rightarrow>
     group_run" where
  "executeTaskGroup clk ai tasks groupName =
     groupLoop clk ai 0 [(LogGroupBegin groupName (length tasks), ''info'')] []
       (sortTasksByDependency tasks)"




text \<open>The ids on which \<open>executeTask\<close> was called, in call order, read off the log.\<close>

fun startedIds :: "log_line list \<Rightarrow> string list" where
  "startedIds [] = []"
| "startedIds ((LogTaskBegin i t, lv) # ls) = i # startedIds ls"
| "startedIds (l # ls) = startedIds ls"

section \<open>Tool adapter (src/executors/ai-adapter.ts)\<close>

subsection \<open>Quota patterns\<close>

text \<open>
  \<open>QUOTA_PATTERNS\<close> are regular expressions without metacharacters, so \<open>pattern.test\<close>
  is a substring test; the flag \<open>i\<close> makes it case-insensitive, which for these ASCII
  patterns is the comparison of the ASCII-lowercased texts.
\<close>

definition toLowerChar :: "char \<Rightarrow> char" where
  "toLowerChar ch =
     (case map_of (zip ''ABCDEFGHIJKLMNOPQRSTUVWXYZ'' ''abcdefghijklmnopqrstuvwxyz'') ch of
        Some l \<Rightarrow> l
      | None \<Rightarrow> ch)"

fun startsWith :: "string \<Rightarrow> string \<Rightarrow> bool" where
  "startsWith [] s = True"
| "startsWith (p # ps) [] = False"
| "startsWith (p # ps) (ch # s) = (p = ch \<and> startsWith ps s)"

fun includesText :: "string \<Rightarrow> string \<Rightarrow> bool" where
  "includesText pat [] = startsWith pat []"
| "includesText pat (ch # s) = (startsWith pat (ch # s) \<or> includesText pat s)"

datatype regex = IgnoreCase string | Exact string

fun test :: "regex \<Rightarrow> string \<Rightarrow> bool" where
  "test (IgnoreCase pat) s = includesText (map toLowerChar pat) (map toLowerChar s)"
| "test (Exact pat) s = includesText pat s"

definition QUOTA_PATTERNS :: "regex list" where
  "QUOTA_PATTERNS =
     [IgnoreCase ''quota'', IgnoreCase ''limit'', IgnoreCase ''rate limit'',
      IgnoreCase ''insufficient'', IgnoreCase ''credits'', Exact ''401'', Exact ''403'',
      Exact ''429'', IgnoreCase ''API key'', IgnoreCase ''authentication'']"

definition isQuotaError :: "string \<Rightarrow> bool" where
  "isQuotaError out = list_ex (\<lambda>pattern. test pattern out) QUOTA_PATTERNS"

subsection \<open>Configuration, tool records and the environment\<close>

record ToolStatus =
  name :: string
  available :: bool
  lastSuccess :: "int option"
  lastFailed :: "int option"
  responseTimeMs :: "int option"
  failureCount :: int

record ToolConfig =
  name_c :: string
  command :: string
  args :: "string list"
  enabled :: bool
  priority :: int

record ToolsConfig =
  tools :: "ToolConfig list"
  maxRetries :: int
  retryDelayMs :: int
  failureCooldownMs :: int
  defaultTool :: string

text \<open>
  The environment of the adapter: the two JSON files it reads and writes through the
  storage module, the clock \<open>Date.now()\<close>, and the number of child processes spawned so
  far. Storage calls are taken not to fail.
\<close>

record world =
  toolsConfig :: "ToolsConfig option"
  statusFile :: "ToolStatus list"
  dateNow :: int
  spawned :: nat

text \<open>
  What the operating system does with a spawned command is not in the program:
  \<open>execCommand\<close> resolves with the captured output or rejects with an error message (a
  non-zero exit, a spawn error or the timeout), after some time. \<open>os n req\<close> is that
  behaviour for the \<open>n\<close>-th process spawned.
\<close>

datatype exec_outcome = ResolvesWith string | RejectsWith string

record proc_run =
  outcome :: exec_outcome
  took :: int

record exec_request =
  command_r :: string
  argv :: "string list"
  cwd_r :: "string option"
  timeout_r :: int

type_synonym os_behaviour = "nat \<Rightarrow> exec_request \<Rightarrow> proc_run"

subsection \<open>Storage of tool records (src/storage/index.ts)\<close>

definition loadToolsConfig :: "world \<Rightarrow> ToolsConfig option" where
  "loadToolsConfig w = toolsConfig w"

definition loadToolStatus :: "world \<Rightarrow> ToolStatus list" where
  "loadToolStatus w = statusFile w"

definition saveToolStatus :: "ToolStatus list \<Rightarrow> world \<Rightarrow> world" where
  "saveToolStatus st w = w\<lparr>statusFile := st\<rparr>"

text \<open>\<open>Partial<ToolStatus>\<close> as passed by the adapter: the keys present carry a value.\<close>

record ToolStatusUpdates =
  available_u :: "bool option"
  lastSuccess_u :: "int option"
  lastFailed_u :: "int option"
  responseTimeMs_u :: "int option"
  failureCount_u :: "int option"

definition spread :: "ToolStatus \<Rightarrow> ToolStatusUpdates \<Rightarrow> ToolStatus" where
  "spread s u =
     s\<lparr>available := (case available_u u of Some v \<Rightarrow> v | None \<Rightarrow> available s),
       lastSuccess := (case lastSuccess_u u of Some v \<Rightarrow> Some v | None \<Rightarrow> lastSuccess s),
       lastFailed := (case lastFailed_u u of Some v \<Rightarrow> Some v | None \<Rightarrow> lastFailed s),
       responseTimeMs :=
         (case responseTimeMs_u u of Some v \<Rightarrow> Some v | None \<Rightarrow> responseTimeMs s),
       failureCount := (case failureCount_u u of Some v \<Rightarrow> v | None \<Rightarrow> failureCount s)\<rparr>"

fun updateFirst :: "string \<Rightarrow> ToolStatusUpdates \<Rightarrow> ToolStatus list \<Rightarrow> ToolStatus list" where
  "updateFirst toolName u [] =
     [spread \<lparr>name = toolName, available = True, lastSuccess = None, lastFailed = None,
              responseTimeMs = None, failureCount = 0\<rparr> u]"
| "updateFirst toolName u (s # ss) =
     (if name s = toolName then spread s u # ss else s # updateFirst toolName u ss)"

definition updateToolStatus :: "string \<Rightarrow> ToolStatusUpdates \<Rightarrow> world \<Rightarrow> world" where
  "updateToolStatus toolName u w =
     saveToolStatus (updateFirst toolName u (loadToolStatus w)) w"

subsection \<open>The Claude Code adapter\<close>

record ClaudeCodeAdapter =
  command_a :: string
  baseArgs :: "string list"

record ExecuteOptions =
  preferredTool :: "string option"
  cwd :: "string option"
  timeout :: "int option"

text \<open>The process \<open>execCommand\<close> spawns: the command with the fixed flags around the prompt.\<close>

definition requestFor ::
  "ClaudeCodeAdapter \<Rightarrow> string \<Rightarrow> string option \<Rightarrow> int option \<Rightarrow> exec_request" where
  "requestFor ad prompt cwdOpt timeoutOpt =
     \<lparr>command_r = command_a ad,
      argv = [''-p'', prompt, ''--permission-mode'', ''bypassPermissions'',
              ''--no-session-persistence''] @ baseArgs ad,
      cwd_r = cwdOpt,
      timeout_r = (case timeoutOpt of None \<Rightarrow> 300000 | Some t \<Rightarrow> t)\<rparr>"

definition ClaudeCodeAdapter_execute ::
  "os_behaviour \<Rightarrow> ClaudeCodeAdapter \<Rightarrow> string \<Rightarrow> string option \<Rightarrow> int option \<Rightarrow> world \<Rightarrow>
     ExecuteResult \<times> world" where
  "ClaudeCodeAdapter_execute os ad prompt cwdOpt timeoutOpt w =
     (let run = os (spawned w) (requestFor ad prompt cwdOpt timeoutOpt);
          w' = w\<lparr>dateNow := dateNow w + took run, spawned := Suc (spawned w)\<rparr>
      in case outcome run of
           ResolvesWith out \<Rightarrow>
             (\<lparr>exitCode = 0, output_x = out, error_x = None, duration = took run,
               tool = ''claude''\<rparr>, w')
         | RejectsWith errorMessage \<Rightarrow>
             (\<lparr>exitCode = 1, output_x = [], error_x = Some errorMessage, duration = took run,
               tool = ''claude''\<rparr>, w'))"

subsection \<open>The pooling adapter\<close>

record AICliAdapter =
  failureCooldownMs_a :: int
  adapters :: "string \<rightharpoonup> ClaudeCodeAdapter"

definition newAICliAdapter :: AICliAdapter where
  "newAICliAdapter =
     \<lparr>failureCooldownMs_a = 5 * 60 * 1000,
      adapters = [''claude'' \<mapsto> \<lparr>command_a = ''claude'', baseArgs = []\<rparr>]\<rparr>"

text \<open>
  \<open>new Map(statuses.map((s) => [s.name, s]))\<close>: of two records with one name the later
  one is kept. \<open>statusMap.get(name) || {\<dots>}\<close> falls back to a fresh default record.
\<close>

definition statusMapGet :: "ToolStatus list \<Rightarrow> string \<Rightarrow> ToolStatus option" where
  "statusMapGet statuses n = find (\<lambda>s. name s = n) (rev statuses)"

definition statusOrDefault :: "ToolStatus list \<Rightarrow> string \<Rightarrow> ToolStatus" where
  "statusOrDefault statuses n =
     (case statusMapGet statuses n of
        Some s \<Rightarrow> s
      | None \<Rightarrow> \<lparr>name = n, available = True, lastSuccess = None, lastFailed = None,
                  responseTimeMs = None, failureCount = 0\<rparr>)"

text \<open>
  \<open>status.lastFailed && now - (status.lastFailed || 0) < this.failureCooldownMs\<close>: a
  missing or zero \<open>lastFailed\<close> is falsy.
\<close>

definition inCooldown :: "int \<Rightarrow> int \<Rightarrow> ToolStatus \<Rightarrow> bool" where
  "inCooldown cooldownMs nowMs s =
     (case lastFailed s of
        None \<Rightarrow> False
      | Some t \<Rightarrow> t \<noteq> 0 \<and> nowMs - t < cooldownMs)"

definition coolDown :: "int \<Rightarrow> int \<Rightarrow> ToolStatus \<Rightarrow> ToolStatus" where
  "coolDown cooldownMs nowMs s =
     (if inCooldown cooldownMs nowMs s then s\<lparr>available := False\<rparr> else s)"

text \<open>
  The comparator of \<open>tools.sort\<close>. \<open>configA?.priority || 999\<close> turns a missing
  configuration and the priority \<open>0\<close> into \<open>999\<close>; \<open>a.responseTimeMs || Infinity\<close>
  turns a missing or zero response time into \<open>Infinity\<close>, and \<open>Infinity - Infinity\<close>
  is \<open>NaN\<close>, which \<open>sort\<close> reads as \<open>0\<close>. The comparator's sign is all that
  \<open>sort\<close> reads.
\<close>

definition priorityOf :: "ToolConfig list \<Rightarrow> string \<Rightarrow> int" where
  "priorityOf cfgs n =
     (case find (\<lambda>t. name_c t = n) cfgs of
        None \<Rightarrow> 999
      | Some c \<Rightarrow> if priority c = 0 then 999 else priority c)"

definition responseOrInfinity :: "ToolStatus \<Rightarrow> int option" where
  "responseOrInfinity s =
     (case responseTimeMs s of
        None \<Rightarrow> None
      | Some r \<Rightarrow> if r = 0 then None else Some r)"

definition compareTools :: "ToolConfig list \<Rightarrow> ToolStatus \<Rightarrow> ToolStatus \<Rightarrow> int" where
  "compareTools cfgs a b =
     (let priorityA = priorityOf cfgs (name a);
          priorityB = priorityOf cfgs (name b)
      in if available a \<noteq> available b then (if available a then - 1 else 1)
         else if priorityA \<noteq> priorityB then sgn (priorityA - priorityB)
         else (case (responseOrInfinity a, responseOrInfinity b) of
                 (None, None) \<Rightarrow> 0
               | (None, Some rb) \<Rightarrow> 1
               | (Some ra, None) \<Rightarrow> - 1
               | (Some ra, Some rb) \<Rightarrow> sgn (ra - rb)))"

text \<open>
  \<open>Array.prototype.sort\<close> is stable, and this comparator orders by a key (availability,
  priority, response time), so the result is the stable sort by that key: each element is
  inserted behind the elements it does not precede.
\<close>

fun insertTool :: "ToolConfig list \<Rightarrow> ToolStatus \<Rightarrow> ToolStatus list \<Rightarrow> ToolStatus list" where
  "insertTool cfgs x [] = [x]"
| "insertTool cfgs x (y # ys) =
     (if compareTools cfgs x y < 0 then x # y # ys else y # insertTool cfgs x ys)"

definition sortTools :: "ToolConfig list \<Rightarrow> ToolStatus list \<Rightarrow> ToolStatus list" where
  "sortTools cfgs xs = foldl (\<lambda>acc x. insertTool cfgs x acc) [] xs"

text \<open>
  \<open>getOrderedToolPool\<close> reads the configuration, the status file and the clock; the
  world is returned as it was found.
\<close>

definition getOrderedToolPool :: "AICliAdapter \<Rightarrow> world \<Rightarrow> ToolStatus list \<times> world" where
  "getOrderedToolPool this w =
     (case loadToolsConfig w of
        None \<Rightarrow> ([], w)
      | Some config \<Rightarrow>
          let statuses = loadToolStatus w;
              nowMs = dateNow w;
              pool = map (\<lambda>toolConfig.
                            coolDown (failureCooldownMs_a this) nowMs
                              (statusOrDefault statuses (name_c toolConfig)))
                         (filter enabled (tools config))
          in (sortTools (tools config) pool, w))"

text \<open>A pool in which no unavailable entry comes before an available one.\<close>

definition availableFirst :: "ToolStatus list \<Rightarrow> bool" where
  "availableFirst xs = sorted_wrt (\<lambda>a b. available b \<longrightarrow> available a) xs"

definition markSuccess :: "string \<Rightarrow> int \<Rightarrow> world \<Rightarrow> world" where
  "markSuccess toolName responseMs w =
     updateToolStatus toolName
       \<lparr>available_u = Some True, lastSuccess_u = Some (dateNow w), lastFailed_u = None,
        responseTimeMs_u = Some responseMs, failureCount_u = Some 0\<rparr> w"

definition markFailed :: "string \<Rightarrow> string \<Rightarrow> world \<Rightarrow> world" where
  "markFailed toolName reason w =
     (let statuses = loadToolStatus w;
          found = find (\<lambda>t. name t = toolName) statuses;
          failureCount' = (case found of None \<Rightarrow> 0 | Some t \<Rightarrow> failureCount t) + 1
      in updateToolStatus toolName
           \<lparr>available_u = Some (reason \<noteq> ''quota''), lastSuccess_u = None,
            lastFailed_u = Some (dateNow w), responseTimeMs_u = None,
            failureCount_u = Some failureCount'\<rparr> w)"

definition isToolAvailable :: "AICliAdapter \<Rightarrow> string \<Rightarrow> world \<Rightarrow> bool" where
  "isToolAvailable this toolName w =
     (case find (\<lambda>t. name t = toolName) (loadToolStatus w) of
        None \<Rightarrow> True
      | Some found \<Rightarrow>
          if \<not> available found then False
          else if inCooldown (failureCooldownMs_a this) (dateNow w) found then False
          else True)"

text \<open>
  The loop \<open>for (const tool of toolPool)\<close> of \<open>execute\<close>, with \<open>lastError\<close> as its
  state. It ends with the result returned from inside the loop, or with the last error at
  the \<open>break\<close> or at the end of the pool. An empty \<open>preferredTool\<close> is falsy. The
  Claude Code adapter catches every error of its own, so the \<open>catch\<close> of the loop is
  never entered.
\<close>

fun poolLoop ::
  "os_behaviour \<Rightarrow> AICliAdapter \<Rightarrow> string \<Rightarrow> ExecuteOptions \<Rightarrow> string option \<Rightarrow>
     ToolStatus list \<Rightarrow> world \<Rightarrow> (string option + ExecuteResult) \<times> world" where
  "poolLoop os this prompt options lastError [] w = (Inl lastError, w)"
| "poolLoop os this prompt options lastError (candidate # pool) w =
     (if (case preferredTool options of None \<Rightarrow> False | Some p \<Rightarrow> p \<noteq> [] \<and> name candidate \<noteq> p)
      then poolLoop os this prompt options lastError pool w
      else
        (case adapters this (name candidate) of
           None \<Rightarrow> poolLoop os this prompt options lastError pool w
         | Some adapter \<Rightarrow>
             (case ClaudeCodeAdapter_execute os adapter prompt (cwd options) (timeout options) w of
                (res, w1) \<Rightarrow>
                  if exitCode res = 0
                  then (Inr res, markSuccess (name candidate) (duration res) w1)
                  else
                    let lastError' =
                          (case error_x res of
                             None \<Rightarrow> output_x res
                           | Some e \<Rightarrow> if e = [] then output_x res else e);
                        isQuota = (isQuotaError (output_x res) \<or> isQuotaError lastError');
                        w2 = markFailed (name candidate) (if isQuota then ''quota'' else ''error'') w1
                    in if isQuota
                       then poolLoop os this prompt options (Some lastError') pool w2
                       else (Inl (Some lastError'), w2))))"

definition AICliAdapter_execute ::
  "os_behaviour \<Rightarrow> AICliAdapter \<Rightarrow> string \<Rightarrow> ExecuteOptions \<Rightarrow> world \<Rightarrow>
     (js_error + ExecuteResult) \<times> AICliAdapter \<times> world" where
  "AICliAdapter_execute os this prompt options w =
     (case loadToolsConfig w of
        None \<Rightarrow> (Inl (Error ''Tools config not found''), this, w)
      | Some config \<Rightarrow>
          let this' = this\<lparr>failureCooldownMs_a := failureCooldownMs config\<rparr>;
              toolPool = fst (getOrderedToolPool this' w)
          in if length toolPool = 0
             then (Inl (Error ''No available AI tools. Please check your configuration.''),
                   this', w)
             else
               (case poolLoop os this' prompt options None toolPool w of
                  (Inr res, w') \<Rightarrow> (Inr res, this', w')
                | (Inl lastError, w') \<Rightarrow>
                    (Inl (Error (''All tools failed. Last error: '' @
                                 (case lastError of None \<Rightarrow> ''undefined'' | Some e \<Rightarrow> e))),
                     this', w')))"

section \<open>Scheduler (src/core/scheduler.ts)\<close>

text \<open>
  A work item as the scheduler reads it: \<open>id\<close>, \<open>type\<close> and \<open>status\<close> of
  \<open>BaseFeedback\<close>. The store is today's partition in the order of
  \<open>listFeedbacksByDate\<close>.
\<close>

record BaseFeedback =
  id_f :: string
  type_f :: string
  status_f :: string

definition listPendingFeedbacks :: "BaseFeedback list \<Rightarrow> BaseFeedback list \<times> BaseFeedback list" where
  "listPendingFeedbacks feedbacks =
     (filter (\<lambda>fb. type_f fb = ''clarification'' \<and> status_f fb = ''pending'') feedbacks,
      filter (\<lambda>fb. type_f fb \<noteq> ''clarification'' \<and>
                    (status_f fb = ''pending'' \<or> status_f fb = ''analyzing'')) feedbacks)"

definition updateFeedbackStatus :: "string \<Rightarrow> string \<Rightarrow> BaseFeedback list \<Rightarrow> BaseFeedback list" where
  "updateFeedbackStatus feedbackId newSt feedbacks =
     map (\<lambda>fb. if id_f fb = feedbackId then fb\<lparr>status_f := newSt\<rparr> else fb) feedbacks"

text \<open>
  \<open>poll\<close> is an async function: it runs until its next \<open>await\<close> and is resumed later,
  while other invocations of \<open>poll\<close> may run in between. The points at which one
  invocation can be suspended, with the local variables it needs when resumed (the item in
  hand and the rest of the arrays \<open>pending.clarifications\<close> and \<open>pending.feedbacks\<close>):
\<close>

datatype poll_pc =
    AwaitListPending
  | AwaitClarificationProcessing BaseFeedback "BaseFeedback list" "BaseFeedback list"
  | AwaitAnalyze BaseFeedback "BaseFeedback list" "BaseFeedback list"
  | AwaitClarificationResult BaseFeedback string "BaseFeedback list" "BaseFeedback list"
  | AwaitClarificationFailed BaseFeedback "BaseFeedback list" "BaseFeedback list"
  | AwaitFeedbackAnalyzing BaseFeedback "BaseFeedback list"
  | AwaitFeedbackExecute BaseFeedback "BaseFeedback list"
  | AwaitFeedbackFailed BaseFeedback "BaseFeedback list"
  | Returned

text \<open>
  The scheduler object with the store it polls and the suspended \<open>poll\<close> invocations.
  \<open>dispatched\<close> is an observation added to the model: for every start of a handler, the
  item's id and whether that id was in \<open>activeTasks\<close> at that moment.
\<close>

record scheduler =
  running :: bool
  maxConcurrent :: nat
  activeTasks :: "string set"
  feedbackStore :: "BaseFeedback list"
  polls :: "poll_pc list"
  dispatched :: "(string \<times> bool) list"

text \<open>What the two handlers do is outside the scheduler; per item id:\<close>

datatype analyze_outcome = NeedsClarification | NoClarification | AnalyzeThrows

datatype execute_outcome = ExecuteReturns "string option" | ExecuteThrows

record handlers =
  analyze :: "string \<Rightarrow> analyze_outcome"
  executeFeedback :: "string \<Rightarrow> execute_outcome"

definition canStartTask :: "scheduler \<Rightarrow> bool" where
  "canStartTask s \<longleftrightarrow> card (activeTasks s) < maxConcurrent s"

text \<open>The first statements of both handlers: \<open>this.activeTasks.add(id)\<close>.\<close>

definition beginHandling :: "string \<Rightarrow> scheduler \<Rightarrow> scheduler" where
  "beginHandling i s =
     s\<lparr>activeTasks := insert i (activeTasks s),
       dispatched := dispatched s @ [(i, i \<in> activeTasks s)]\<rparr>"

text \<open>The \<open>finally\<close> block of both handlers: \<open>this.activeTasks.delete(id)\<close>.\<close>

definition endHandling :: "string \<Rightarrow> scheduler \<Rightarrow> scheduler" where
  "endHandling i s = s\<lparr>activeTasks := activeTasks s - {i}\<rparr>"

text \<open>
  The loop over \<open>pending.feedbacks\<close>, from the head of an iteration to the next
  suspension. \<open>handleFeedback\<close> suspends unless the status read at listing time is none
  of \<open>pending\<close>, \<open>analyzing\<close>, \<open>executing\<close>.
\<close>

fun loopFeedbacks :: "BaseFeedback list \<Rightarrow> scheduler \<Rightarrow> poll_pc \<times> scheduler" where
  "loopFeedbacks [] s = (Returned, s)"
| "loopFeedbacks (feedback # fs) s =
     (if \<not> canStartTask s then (Returned, s)
      else
        let s1 = beginHandling (id_f feedback) s
        in if status_f feedback = ''pending'' then (AwaitFeedbackAnalyzing feedback fs, s1)
           else if status_f feedback = ''analyzing'' then (AwaitFeedbackExecute feedback fs, s1)
           else if status_f feedback = ''executing'' then (AwaitFeedbackExecute feedback fs, s1)
           else loopFeedbacks fs (endHandling (id_f feedback) s1))"

text \<open>The loop over \<open>pending.clarifications\<close>; its \<open>break\<close> leads to the second loop.\<close>

fun loopClarifications ::
  "BaseFeedback list \<Rightarrow> BaseFeedback list \<Rightarrow> scheduler \<Rightarrow> poll_pc \<times> scheduler" where
  "loopClarifications [] fs s = loopFeedbacks fs s"
| "loopClarifications (clarification # cs) fs s =
     (if \<not> canStartTask s then loopFeedbacks fs s
      else (AwaitClarificationProcessing clarification cs fs,
            beginHandling (id_f clarification) s))"

text \<open>One invocation resumed at its suspension point and run to the next one.\<close>

fun resume :: "handlers \<Rightarrow> poll_pc \<Rightarrow> scheduler \<Rightarrow> poll_pc \<times> scheduler" where
  "resume h AwaitListPending s =
     (case listPendingFeedbacks (feedbackStore s) of
        (clarifications, feedbacks) \<Rightarrow> loopClarifications clarifications feedbacks s)"
| "resume h (AwaitClarificationProcessing c cs fs) s =
     (AwaitAnalyze c cs fs,
      s\<lparr>feedbackStore := updateFeedbackStatus (id_f c) ''processing'' (feedbackStore s)\<rparr>)"
| "resume h (AwaitAnalyze c cs fs) s =
     (case analyze h (id_f c) of
        NeedsClarification \<Rightarrow> (AwaitClarificationResult c ''awaiting'' cs fs, s)
      | NoClarification \<Rightarrow> (AwaitClarificationResult c ''confirmed'' cs fs, s)
      | AnalyzeThrows \<Rightarrow> (AwaitClarificationFailed c cs fs, s))"
| "resume h (AwaitClarificationResult c st cs fs) s =
     loopClarifications cs fs
       (endHandling (id_f c)
          (s\<lparr>feedbackStore := updateFeedbackStatus (id_f c) st (feedbackStore s)\<rparr>))"
| "resume h (AwaitClarificationFailed c cs fs) s =
     loopClarifications cs fs
       (endHandling (id_f c)
          (s\<lparr>feedbackStore := updateFeedbackStatus (id_f c) ''failed'' (feedbackStore s)\<rparr>))"
| "resume h (AwaitFeedbackAnalyzing f fs) s =
     (AwaitFeedbackExecute f fs,
      s\<lparr>feedbackStore := updateFeedbackStatus (id_f f) ''analyzing'' (feedbackStore s)\<rparr>)"
| "resume h (AwaitFeedbackExecute f fs) s =
     (case executeFeedback h (id_f f) of
        ExecuteReturns written \<Rightarrow>
          loopFeedbacks fs
            (endHandling (id_f f)
               (case written of
                  None \<Rightarrow> s
                | Some st \<Rightarrow>
                    s\<lparr>feedbackStore := updateFeedbackStatus (id_f f) st (feedbackStore s)\<rparr>))
      | ExecuteThrows \<Rightarrow> (AwaitFeedbackFailed f fs, s))"
| "resume h (AwaitFeedbackFailed f fs) s =
     loopFeedbacks fs
       (endHandling (id_f f)
          (s\<lparr>feedbackStore := updateFeedbackStatus (id_f f) ''failed'' (feedbackStore s)\<rparr>))"
| "resume h Returned s = (Returned, s)"

text \<open>
  What happens to a scheduler: \<open>poll()\<close> is called (by \<open>start\<close>, by the interval timer
  or directly), which runs to \<open>await listPendingFeedbacks()\<close> unless the scheduler is
  stopped; or the \<open>k\<close>-th invocation of \<open>poll\<close> is resumed.
\<close>

datatype event = PollCalled | Resumed nat

fun occur :: "handlers \<Rightarrow> scheduler \<Rightarrow> event \<Rightarrow> scheduler" where
  "occur h s PollCalled =
     s\<lparr>polls := polls s @ [if \<not> running s then Returned else AwaitListPending]\<rparr>"
| "occur h s (Resumed k) =
     (if k < length (polls s)
      then (case resume h (polls s ! k) s of
              (pc', s') \<Rightarrow> s'\<lparr>polls := (polls s')[k := pc']\<rparr>)
      else s)"

definition occurAll :: "handlers \<Rightarrow> scheduler \<Rightarrow> event list \<Rightarrow> scheduler" where
  "occurAll h s es = foldl (occur h) s es"

section \<open>Concrete inputs\<close>

definition taskA :: ExecutableTask where
  "taskA = \<lparr>taskId = ''A'', title = ''first'', description = [], files = [],
            project = ''backend'', dependsOn = [], taskStatus = ''pending'',
            result = None, startedAt = None, completedAt = None\<rparr>"


definition taskB_onA :: ExecutableTask where
  "taskB_onA = \<lparr>taskId = ''B'', title = ''second'', description = [], files = [],
                project = ''backend'', dependsOn = [''A''], taskStatus = ''pending'',
                result = None, startedAt = None, completedAt = None\<rparr>"

definition taskC_onA :: ExecutableTask where
  "taskC_onA = \<lparr>taskId = ''C'', title = ''third'', description = [], files = [],
                project = ''backend'', dependsOn = [''A''], taskStatus = ''pending'',
                result = None, startedAt = None, completedAt = None\<rparr>"


definition clock0 :: clock where
  "clock0 = \<lparr>isoNow = ''2024-01-01T00:00:00.000Z'', elapsedMs = 5\<rparr>"

definition aiRejectAll :: "nat \<Rightarrow> ExecutableTask \<Rightarrow> ai_outcome" where
  "aiRejectAll n t = Rejects ''All tools failed. Last error: boom''"

definition aiResolveAll :: "nat \<Rightarrow> ExecutableTask \<Rightarrow> ai_outcome" where
  "aiResolveAll n t =
     Resolves \<lparr>exitCode = 0, output_x = ''done'', error_x = None, duration = 7, tool = ''claude''\<rparr>"

definition claudeCfg :: ToolConfig where
  "claudeCfg =
     \<lparr>name_c = ''claude'', command = ''claude'', args = [], enabled = True, priority = 1\<rparr>"

definition geminiCfg :: ToolConfig where
  "geminiCfg =
     \<lparr>name_c = ''gemini'', command = ''gemini-cli'', args = [], enabled = True, priority = 2\<rparr>"

definition twoToolsConfig :: ToolsConfig where
  "twoToolsConfig =
     \<lparr>tools = [claudeCfg, geminiCfg], maxRetries = 3, retryDelayMs = 1000,
      failureCooldownMs = 300000, defaultTool = ''claude''\<rparr>"

definition oneToolConfig :: ToolsConfig where
  "oneToolConfig =
     \<lparr>tools = [claudeCfg], maxRetries = 3, retryDelayMs = 1000,
      failureCooldownMs = 300000, defaultTool = ''claude''\<rparr>"

definition freshWorld :: world where
  "freshWorld =
     \<lparr>toolsConfig = Some twoToolsConfig, statusFile = [], dateNow = 1000000, spawned = 0\<rparr>"

definition oneToolWorld :: world where
  "oneToolWorld =
     \<lparr>toolsConfig = Some oneToolConfig, statusFile = [], dateNow = 1000000, spawned = 0\<rparr>"

definition claudeFailedAt :: "int \<Rightarrow> ToolStatus" where
  "claudeFailedAt t =
     \<lparr>name = ''claude'', available = True, lastSuccess = None, lastFailed = Some t,
      responseTimeMs = None, failureCount = 1\<rparr>"

definition osQuotaThenOk :: os_behaviour where
  "osQuotaThenOk n req =
     (if n = 0 then \<lparr>outcome = RejectsWith ''quota exceeded'', took = 10\<rparr>
      else \<lparr>outcome = ResolvesWith ''ok'', took = 20\<rparr>)"

definition osBoom :: os_behaviour where
  "osBoom n req = \<lparr>outcome = RejectsWith ''boom'', took = 10\<rparr>"

definition noOptions :: ExecuteOptions where
  "noOptions = \<lparr>preferredTool = None, cwd = None, timeout = None\<rparr>"

definition cooldownWorld :: "int \<Rightarrow> world" where
  "cooldownWorld t = oneToolWorld\<lparr>statusFile := [claudeFailedAt t]\<rparr>"

definition osAlwaysOk :: os_behaviour where
  "osAlwaysOk n req = \<lparr>outcome = ResolvesWith ''ok'', took = 20\<rparr>"

text \<open>A started scheduler with the default configuration over a store of work items.\<close>

definition startedScheduler :: "BaseFeedback list \<Rightarrow> scheduler" where
  "startedScheduler feedbacks =
     \<lparr>running = True, maxConcurrent = 3, activeTasks = {}, feedbackStore = feedbacks,
      polls = [], dispatched = []\<rparr>"

definition feedbackX :: BaseFeedback where
  "feedbackX = \<lparr>id_f = ''20240101-000000-abcde'', type_f = ''feedback'', status_f = ''pending''\<rparr>"

definition slowHandlers :: handlers where
  "slowHandlers =
     \<lparr>analyze = (\<lambda>i. NoClarification), executeFeedback = (\<lambda>i. ExecuteReturns (Some ''completed''))\<rparr>"

section \<open>State machine: properties\<close>

lemma historyTracks_new: "historyTracks s0 (newStateMachine now s0 ty)"
  by (simp add: historyTracks_def newStateMachine_def recordState_def getHistory_def
      getStatus_def)

lemma historyTracks_recordState:
  "historyTracks s0 sm \<Longrightarrow> historyTracks s0 (recordState now s (sm\<lparr>currentStatus := s\<rparr>))"
  by (simp add: historyTracks_def recordState_def getHistory_def getStatus_def)

lemma historyTracks_applyCall:
  "historyTracks s0 sm \<Longrightarrow> historyTracks s0 (applyCall sm c)"
proof (cases c)
  case (Transition now s)
  assume inv: "historyTracks s0 sm"
  show ?thesis
  proof (cases "canTransition (currentStatus sm) s (domainType sm)")
    case (Inl e)
    with inv Transition show ?thesis by (simp add: transition_def)
  next
    case (Inr ok)
    with inv Transition show ?thesis
      by (simp add: transition_def historyTracks_recordState)
  qed
next
  case (ForceTransition now s)
  assume "historyTracks s0 sm"
  with ForceTransition show ?thesis
    by (simp add: forceTransition_def historyTracks_recordState)
qed

lemma historyTracks_foldl:
  "historyTracks s0 sm \<Longrightarrow> historyTracks s0 (foldl applyCall sm cs)"
  by (induction cs arbitrary: sm) (simp_all add: historyTracks_applyCall)

text \<open>
  Claim C8. For every domain and every status \<open>s\<close>, \<open>transition(s)\<close> on a machine whose
  current status is \<open>s\<close> returns success with \<open>newStatus = s\<close>, leaves the current status
  unchanged and appends nothing to the history: the machine after the call is the machine
  before it.
\<close>

theorem transition_current_is_silent_noop:
  "transition now (getStatus sm) sm =
     (Inr \<lparr>success = True, newStatus = Some (getStatus sm), error = None\<rparr>, sm)"
  by (simp add: transition_def getStatus_def)

text \<open>
  Claim C10. For a machine of any domain built with any initial status, after any finite
  sequence of \<open>transition\<close> and \<open>forceTransition\<close> calls, whether they succeed, are
  rejected or raise, the history is non-empty, its first entry carries the initial status
  and its last entry carries the current status.
\<close>

theorem history_head_initial_tail_current:
  "getHistory (applyCalls (newStateMachine now s0 ty) cs) \<noteq> [] \<and>
   status (hd (getHistory (applyCalls (newStateMachine now s0 ty) cs))) = s0 \<and>
   status (last (getHistory (applyCalls (newStateMachine now s0 ty) cs))) =
     getStatus (applyCalls (newStateMachine now s0 ty) cs)"
  using historyTracks_foldl [OF historyTracks_new, of s0 now ty cs]
  by (simp add: historyTracks_def applyCalls_def)

section \<open>Dependency sort: properties\<close>

lemma scanPass_split:
  "length xs = n \<Longrightarrow> scanPass n (s, p, xs @ ys) = (s', p', r') \<Longrightarrow>
   \<exists>new kept. s' = s @ new \<and> r' = kept @ ys \<and> subseq (rev new) xs \<and> subseq kept xs \<and>
      mset new + mset kept = mset xs"
proof (induction n arbitrary: s p xs ys s' p' r')
  case 0
  then show ?case by simp
next
  case (Suc i)
  from Suc.prems(1) obtain zs x where xs: "xs = zs @ [x]" and len: "length zs = i"
    by (metis length_Suc_conv_rev)
  define R where "R = xs @ ys"
  have nth: "R ! i = x" using xs len by (simp add: R_def nth_append)
  have tk: "take i R = zs" using xs len by (simp add: R_def)
  have dr: "drop (Suc i) R = ys" using xs len by (simp add: R_def)
  have step: "scanPass (Suc i) (s, p, R) =
      (if list_all (\<lambda>dep. dep \<in> p) (dependsOn x)
       then scanPass i (s @ [x], insert (taskId x) p, zs @ ys)
       else scanPass i (s, p, R))"
    by (simp only: scanPass.simps Let_def nth tk dr)
  have run: "scanPass (Suc i) (s, p, R) = (s', p', r')"
    using Suc.prems(2) by (simp only: R_def)
  show ?case
  proof (cases "list_all (\<lambda>dep. dep \<in> p) (dependsOn x)")
    case True
    with run step
    have "scanPass i (s @ [x], insert (taskId x) p, zs @ ys) = (s', p', r')"
      by simp
    from Suc.IH [OF len this] obtain new kept where
      h: "s' = (s @ [x]) @ new" "r' = kept @ ys" "subseq (rev new) zs" "subseq kept zs"
         "mset new + mset kept = mset zs"
      by blast
    have "subseq (rev (x # new)) xs" using h(3) xs by (simp add: list_emb_append_mono)
    moreover have "subseq kept xs" using h(4) xs by (simp add: subseq_rev_drop_many)
    moreover have "mset (x # new) + mset kept = mset xs" using h(5) xs by simp
    ultimately show ?thesis using h(1,2) by (intro exI [of _ "x # new"] exI [of _ kept]) simp
  next
    case False
    with run step
    have "scanPass i (s, p, zs @ (x # ys)) = (s', p', r')"
      using xs by (simp add: R_def)
    from Suc.IH [OF len this] obtain new kept where
      h: "s' = s @ new" "r' = kept @ (x # ys)" "subseq (rev new) zs" "subseq kept zs"
         "mset new + mset kept = mset zs"
      by blast
    have "subseq (rev new) xs" using h(3) xs by (simp add: subseq_rev_drop_many)
    moreover have "subseq (kept @ [x]) xs" using h(4) xs by (simp add: list_emb_append_mono)
    moreover have "mset new + mset (kept @ [x]) = mset xs" using h(5) xs by simp
    ultimately show ?thesis using h(1,2) by (intro exI [of _ new] exI [of _ "kept @ [x]"]) simp
  qed
qed

lemma onePass_split:
  assumes "onePass (s, p, r) = (s', p', r')"
  shows "\<exists>new. s' = s @ new \<and> subseq (rev new) r \<and> subseq r' r \<and> mset new + mset r' = mset r"
proof -
  from assms have "scanPass (length r) (s, p, r @ []) = (s', p', r')"
    by (simp add: onePass_def)
  from scanPass_split [OF refl this] show ?thesis by auto
qed

lemma sortLoop_inv:
  "sortLoop m k (s, p, r) = ((s', p', r'), k') \<Longrightarrow> k \<le> m \<Longrightarrow>
     k' \<le> m \<and> (r' = [] \<or> k' = m) \<and> mset s' + mset r' = mset s + mset r \<and> subseq r' r"
proof (induction m k "(s, p, r)" arbitrary: s p r rule: sortLoop.induct)
  case (1 m k s p r)
  show ?case
  proof (cases "length r > 0 \<and> k < m")
    case True
    obtain s1 p1 r1 where one: "onePass (s, p, r) = (s1, p1, r1)"
      by (cases "onePass (s, p, r)") auto
    then have sp: "scanPass (length r) (s, p, r) = (s1, p1, r1)"
      by (simp add: onePass_def)
    from "1.prems"(1) True sp have run: "sortLoop m (Suc k) (s1, p1, r1) = ((s', p', r'), k')"
      by simp
    from True have le: "Suc k \<le> m" by simp
    from "1.hyps" [OF True sp run le]
    have ih: "k' \<le> m" "r' = [] \<or> k' = m" "mset s' + mset r' = mset s1 + mset r1" "subseq r' r1"
      by auto
    from onePass_split [OF one] obtain new where
      n: "s1 = s @ new" "subseq r1 r" "mset new + mset r1 = mset r"
      by blast
    have "mset s' + mset r' = mset s + mset r"
      using ih(3) n(1,3) by (simp add: ac_simps)
    moreover have "subseq r' r" using ih(4) n(2) by (rule subseq_order.trans)
    ultimately show ?thesis using ih(1,2) by simp
  next
    case False
    with "1.prems" show ?thesis by auto
  qed
qed

lemma sortRun_inv:
  assumes "sortRun tasks = ((s', p', r'), k')"
  shows "k' \<le> 2 * length tasks \<and> (r' = [] \<or> k' = 2 * length tasks) \<and>
         mset s' + mset r' = mset tasks \<and> subseq r' tasks"
  using sortLoop_inv [of "length tasks * 2" 0 "[]" "{}" tasks s' p' r' k'] assms
  by (simp add: sortRun_def mult.commute)

text \<open>
  Claim C6. For every task list, cyclic or with dependencies on absent tasks included, the
  dependency sort is a total function that makes at most \<open>2 * |tasks|\<close> scan passes and
  returns a permutation of its input (every task exactly once); the result is the placed
  tasks followed by the tasks still unplaced at loop exit, which keep their original
  relative order, and tasks are left unplaced only when the pass bound was reached.
\<close>

theorem sort_terminates_bounded_permutation:
  "sortPasses tasks \<le> 2 * length tasks \<and>
   mset (sortTasksByDependency tasks) = mset tasks \<and>
   sortTasksByDependency tasks = sortPlaced tasks @ sortUnplaced tasks \<and>
   subseq (sortUnplaced tasks) tasks \<and>
   (sortUnplaced tasks = [] \<or> sortPasses tasks = 2 * length tasks)"
proof -
  obtain s' p' r' k' where run: "sortRun tasks = ((s', p', r'), k')"
    by (metis prod.exhaust)
  from sortRun_inv [OF run] show ?thesis
    using run
    by (auto simp add: sortPasses_def sortTasksByDependency_def sortPlaced_def sortUnplaced_def)
qed








section \<open>Task executor: properties\<close>

lemma mset3_cases:
  assumes "mset tasks = {#a, b, c#}"
  shows "tasks \<in> {[a,b,c],[a,c,b],[b,a,c],[b,c,a],[c,a,b],[c,b,a]}"
proof -
  from assms have "length tasks = 3" by (metis size_mset size_add_mset size_empty numeral_3_eq_3)
  then obtain x y z where t: "tasks = [x, y, z]"
    by (metis length_0_conv length_Suc_conv numeral_3_eq_3)
  with assms have "{#x, y, z#} = {#a, b, c#}" by simp
  then show ?thesis unfolding t
    by (auto simp: add_eq_conv_diff split: if_splits)
qed

lemma canStart_pending:
  "canStart (newTaskStateMachine now st) \<longleftrightarrow> st = ''pending''"
  by (simp add: canStart_def newTaskStateMachine_def newStateMachine_def recordState_def
      getStatus_def)

lemma groupLoop_log_grows:
  "\<exists>more. logged (groupLoop clk ai n lg visited rest) = lg @ more"
proof (induction rest arbitrary: n lg visited)
  case Nil
  show ?case by simp
next
  case (Cons task rest)
  show ?case
  proof (cases "canStart (newTaskStateMachine (isoNow clk) (taskStatus task)) \<and>
                checkDependencies task (visited @ task # rest)")
    case False
    then show ?thesis using Cons.IH by (auto simp add: Let_def) (metis append.assoc)+
  next
    case True
    obtain res task' lines where ex: "executeTask clk (ai n) task = (res, task', lines)"
      by (metis prod.exhaust)
    show ?thesis
    proof (cases res)
      case True
      with \<open>canStart _ \<and> _\<close> ex Cons.IH show ?thesis
        by (simp add: Let_def) (metis append.assoc)
    next
      case False
      with \<open>canStart _ \<and> _\<close> ex show ?thesis by (simp add: Let_def)
    qed
  qed
qed

lemma executeTask_result:
  "fst (executeTask clk call task) \<longleftrightarrow> \<not> executionFails (call (markStarted clk task))"
  by (simp add: executeTask_def executionFails_def markStarted_def Let_def
      split: ai_outcome.splits)

lemma executeTask_log:
  "startedIds (snd (snd (executeTask clk call task))) = []"
  by (simp add: executeTask_def Let_def split: ai_outcome.splits)

lemma startedIds_append: "startedIds (xs @ ys) = startedIds xs @ startedIds ys"
  by (induction xs rule: startedIds.induct) simp_all

lemma first_task_runs:
  assumes "taskStatus a = ''pending''" "dependsOn a = []"
  shows "\<exists>more. startedIds (logged (groupLoop clk ai 0 [(LogGroupBegin g k, ''info'')] [] (a # rest)))
           = taskId a # more"
proof -
  obtain res task' lines where ex: "executeTask clk (ai 0) a = (res, task', lines)"
    by (metis prod.exhaust)
  have lines: "startedIds lines = []" using executeTask_log [of clk "ai 0" a] ex by simp
  show ?thesis
  proof (cases res)
    case True
    let ?lg = "[(LogGroupBegin g k, ''info''), (LogTaskBegin (taskId a) (title a), ''info'')]
                 @ lines @ [(LogTaskDone (taskId a), ''info'')]"
    from groupLoop_log_grows [of clk ai "Suc 0" ?lg "[task']" rest]
    obtain more where "logged (groupLoop clk ai (Suc 0) ?lg [task'] rest) = ?lg @ more" by blast
    with True ex assms lines show ?thesis
      by (simp add: canStart_pending checkDependencies_def Let_def startedIds_append)
  next
    case False
    with ex assms lines show ?thesis
      by (simp add: canStart_pending checkDependencies_def Let_def startedIds_append)
  qed
qed

lemma first_task_fails:
  assumes "taskStatus a = ''pending''" "dependsOn a = []"
    and "executionFails (ai 0 (markStarted clk a))"
  shows "groupLoop clk ai 0 [(LogGroupBegin g k, ''info'')] [] (a # rest) =
           \<lparr>ok = False,
            tasksAfter = fst (snd (executeTask clk (ai 0) a)) # rest,
            logged = [(LogGroupBegin g k, ''info''), (LogTaskBegin (taskId a) (title a), ''info'')]
                       @ snd (snd (executeTask clk (ai 0) a))
                       @ [(LogTaskFailed (taskId a), ''error'')],
            aiCalls = 1\<rparr>"
proof -
  obtain res task' lines where ex: "executeTask clk (ai 0) a = (res, task', lines)"
    by (metis prod.exhaust)
  from executeTask_result [of clk "ai 0" a] assms(3) ex have "\<not> res" by simp
  with ex assms(1,2) show ?thesis
    by (simp add: canStart_pending checkDependencies_def Let_def)
qed

lemma sort_three:
  assumes "dependsOn a = []" "dependsOn b = [taskId a]" "dependsOn c = [taskId a]"
  shows "sortTasksByDependency [a, b, c] = [a, c, b]"
    and "sortTasksByDependency [a, c, b] = [a, b, c]"
    and "sortTasksByDependency [b, a, c] = [a, b, c]"
    and "sortTasksByDependency [b, c, a] = [a, c, b]"
    and "sortTasksByDependency [c, a, b] = [a, c, b]"
    and "sortTasksByDependency [c, b, a] = [a, b, c]"
  using assms by (simp_all add: sortTasksByDependency_def sortRun_def)

lemma executeTask_resolved:
  assumes "\<not> executionFails (call (markStarted clk t))"
  shows "taskStatus (fst (snd (executeTask clk call t))) = ''completed''"
    and "taskId (fst (snd (executeTask clk call t))) = taskId t"
    and "fst (executeTask clk call t)"
  using assms
  by (simp_all add: executeTask_def executionFails_def markStarted_def Let_def
      split: ai_outcome.splits)

lemma groupLoop_step_ok:
  assumes "taskStatus t = ''pending''" "checkDependencies t (visited @ t # rest)"
    and "\<not> executionFails (ai n (markStarted clk t))"
  shows "groupLoop clk ai n lg visited (t # rest) =
           groupLoop clk ai (Suc n)
             (lg @ [(LogTaskBegin (taskId t) (title t), ''info'')]
                 @ snd (snd (executeTask clk (ai n) t)) @ [(LogTaskDone (taskId t), ''info'')])
             (visited @ [fst (snd (executeTask clk (ai n) t))]) rest"
proof -
  obtain res task' lines where ex: "executeTask clk (ai n) t = (res, task', lines)"
    by (metis prod.exhaust)
  from executeTask_resolved(3) [where call="ai n" and clk=clk and t=t, OF assms(3)] ex have res by simp
  with ex assms(1,2) show ?thesis
    by (simp add: canStart_pending Let_def)
qed

lemma three_all_succeed:
  assumes "taskStatus a = ''pending''" "dependsOn a = []"
    and "taskStatus x = ''pending''" "dependsOn x = [taskId a]"
    and "taskStatus y = ''pending''" "dependsOn y = [taskId a]"
    and "\<not> executionFails (ai 0 (markStarted clk a))"
    and "\<not> executionFails (ai 1 (markStarted clk x))"
    and "\<not> executionFails (ai 2 (markStarted clk y))"
  shows "ok (groupLoop clk ai 0 lg [] [a, x, y]) \<and>
         startedIds (logged (groupLoop clk ai 0 lg [] [a, x, y])) =
           startedIds lg @ [taskId a, taskId x, taskId y]"
proof -
  define a' where "a' = fst (snd (executeTask clk (ai 0) a))"
  define x' where "x' = fst (snd (executeTask clk (ai (Suc 0)) x))"
  define y' where "y' = fst (snd (executeTask clk (ai (Suc (Suc 0))) y))"
  define lg1 where "lg1 = lg @ [(LogTaskBegin (taskId a) (title a), ''info'')]
       @ snd (snd (executeTask clk (ai 0) a)) @ [(LogTaskDone (taskId a), ''info'')]"
  define lg2 where "lg2 = lg1 @ [(LogTaskBegin (taskId x) (title x), ''info'')]
       @ snd (snd (executeTask clk (ai (Suc 0)) x)) @ [(LogTaskDone (taskId x), ''info'')]"
  define lg3 where "lg3 = lg2 @ [(LogTaskBegin (taskId y) (title y), ''info'')]
       @ snd (snd (executeTask clk (ai (Suc (Suc 0))) y)) @ [(LogTaskDone (taskId y), ''info'')]"
  have f1: "\<not> executionFails (ai (Suc 0) (markStarted clk x))" using assms(8) by simp
  have f2: "\<not> executionFails (ai (Suc (Suc 0)) (markStarted clk y))"
    using assms(9) by (simp add: numeral_2_eq_2)
  have c: "taskStatus a' = ''completed''" "taskId a' = taskId a"
    unfolding a'_def
    using executeTask_resolved [where call="ai 0" and clk=clk and t=a, OF assms(7)] by simp_all
  have s1: "checkDependencies a ([] @ a # [x, y])"
    using assms(2) by (simp add: checkDependencies_def)
  have s2: "checkDependencies x ([a'] @ x # [y])"
    using assms(4) c by (simp add: checkDependencies_def)
  have s3: "checkDependencies y (([a'] @ [x']) @ y # [])"
    using assms(6) c by (simp add: checkDependencies_def)
  have "groupLoop clk ai 0 lg [] [a, x, y] = groupLoop clk ai (Suc 0) lg1 ([] @ [a']) [x, y]"
    unfolding lg1_def a'_def
    by (rule groupLoop_step_ok [where ai=ai and clk=clk and t=a, OF assms(1) s1 assms(7)])
  also have "\<dots> = groupLoop clk ai (Suc (Suc 0)) lg2 ([a'] @ [x']) [y]"
    unfolding lg2_def x'_def append_Nil
    by (rule groupLoop_step_ok [where ai=ai and clk=clk and t=x, OF assms(3) s2 f1])
  also have "\<dots> = groupLoop clk ai (Suc (Suc (Suc 0))) lg3 (([a'] @ [x']) @ [y']) []"
    unfolding lg3_def y'_def
    by (rule groupLoop_step_ok [where ai=ai and clk=clk and t=y, OF assms(5) s3 f2])
  finally have "groupLoop clk ai 0 lg [] [a, x, y] =
      \<lparr>ok = True, tasksAfter = [a', x', y'], logged = lg3, aiCalls = 3\<rparr>"
    by simp
  moreover have "startedIds lg3 = startedIds lg @ [taskId a, taskId x, taskId y]"
    by (simp add: lg3_def lg2_def lg1_def startedIds_append executeTask_log)
  ultimately show ?thesis by simp
qed

text \<open>
  Claim C4. A bucket holding exactly the pending tasks \<open>A\<close> (no dependencies), \<open>B\<close> and
  \<open>C\<close> (each depending on \<open>A\<close>), in any input order: the sort puts \<open>A\<close> first and
  \<open>executeTask\<close> is called on \<open>A\<close> before any other task. If the execution of \<open>A\<close>
  fails, the bucket returns \<open>false\<close> after that single call, and \<open>B\<close> and \<open>C\<close> are left
  as they were, never started. If no execution fails, all three run, \<open>A\<close> first.
\<close>

theorem dependents_after_and_fail_fast:
  assumes "mset tasks = {#a, b, c#}"
    and "dependsOn a = []" "dependsOn b = [taskId a]" "dependsOn c = [taskId a]"
    and "taskStatus a = ''pending''" "taskStatus b = ''pending''" "taskStatus c = ''pending''"
  shows "\<exists>x y. sortTasksByDependency tasks = [a, x, y] \<and> mset [x, y] = {#b, c#} \<and>
           (\<exists>more. startedIds (logged (executeTaskGroup clk ai tasks g)) = taskId a # more) \<and>
           (executionFails (ai 0 (markStarted clk a)) \<longrightarrow>
              \<not> ok (executeTaskGroup clk ai tasks g) \<and>
              startedIds (logged (executeTaskGroup clk ai tasks g)) = [taskId a] \<and>
              aiCalls (executeTaskGroup clk ai tasks g) = 1 \<and>
              tasksAfter (executeTaskGroup clk ai tasks g) =
                [fst (snd (executeTask clk (ai 0) a)), x, y]) \<and>
           (\<not> executionFails (ai 0 (markStarted clk a)) \<and>
            \<not> executionFails (ai 1 (markStarted clk x)) \<and>
            \<not> executionFails (ai 2 (markStarted clk y)) \<longrightarrow>
              ok (executeTaskGroup clk ai tasks g) \<and>
              startedIds (logged (executeTaskGroup clk ai tasks g)) =
                [taskId a, taskId x, taskId y])"
proof -
  from sort_three [OF assms(2,3,4)] mset3_cases [OF assms(1)]
  consider "sortTasksByDependency tasks = [a, b, c]" | "sortTasksByDependency tasks = [a, c, b]"
    by auto
  then obtain x y where srt: "sortTasksByDependency tasks = [a, x, y]"
    and xy: "mset [x, y] = {#b, c#}"
    and px: "taskStatus x = ''pending''" "dependsOn x = [taskId a]"
    and py: "taskStatus y = ''pending''" "dependsOn y = [taskId a]"
    using assms(3,4,6,7) by cases auto
  let ?run = "executeTaskGroup clk ai tasks g"
  have run: "?run = groupLoop clk ai 0 [(LogGroupBegin g (length tasks), ''info'')] [] [a, x, y]"
    by (simp add: executeTaskGroup_def srt)
  have first: "\<exists>more. startedIds (logged ?run) = taskId a # more"
    unfolding run by (rule first_task_runs [OF assms(5,2)])
  have fail: "\<not> ok ?run \<and> startedIds (logged ?run) = [taskId a] \<and> aiCalls ?run = 1 \<and>
              tasksAfter ?run = [fst (snd (executeTask clk (ai 0) a)), x, y]"
    if "executionFails (ai 0 (markStarted clk a))"
    unfolding run first_task_fails [where ai=ai and clk=clk and a=a, OF assms(5,2) that]
    by (simp add: startedIds_append executeTask_log)
  have good: "ok ?run \<and> startedIds (logged ?run) = [taskId a, taskId x, taskId y]"
    if "\<not> executionFails (ai 0 (markStarted clk a))"
       "\<not> executionFails (ai 1 (markStarted clk x))"
       "\<not> executionFails (ai 2 (markStarted clk y))"
    unfolding run
    using three_all_succeed [OF assms(5,2) px py that] by simp
  from srt xy first fail good show ?thesis by blast
qed

theorem dependents_after_and_fail_fast_witness:
  "sortTasksByDependency [taskA, taskB_onA, taskC_onA] = [taskA, taskC_onA, taskB_onA] \<and>
   \<not> ok (executeTaskGroup clock0 aiRejectAll [taskA, taskB_onA, taskC_onA] ''backend'') \<and>
   startedIds (logged (executeTaskGroup clock0 aiRejectAll [taskA, taskB_onA, taskC_onA] ''backend''))
     = [''A''] \<and>
   startedIds (logged (executeTaskGroup clock0 aiResolveAll [taskA, taskB_onA, taskC_onA] ''backend''))
     = [''A'', ''C'', ''B'']"
proof -
  have m: "mset [taskA, taskB_onA, taskC_onA] = {#taskA, taskB_onA, taskC_onA#}" by simp
  have d: "dependsOn taskA = []" "dependsOn taskB_onA = [taskId taskA]"
    "dependsOn taskC_onA = [taskId taskA]"
    by (simp_all add: taskA_def taskB_onA_def taskC_onA_def)
  have p: "taskStatus taskA = ''pending''" "taskStatus taskB_onA = ''pending''"
    "taskStatus taskC_onA = ''pending''"
    by (simp_all add: taskA_def taskB_onA_def taskC_onA_def)
  have s: "sortTasksByDependency [taskA, taskB_onA, taskC_onA] = [taskA, taskC_onA, taskB_onA]"
    by (simp add: sortTasksByDependency_def sortRun_def taskA_def taskB_onA_def taskC_onA_def)
  have f: "executionFails (aiRejectAll 0 (markStarted clock0 taskA))"
    by (simp add: executionFails_def aiRejectAll_def)
  have g: "\<not> executionFails (aiResolveAll n t)" for n t
    by (simp add: executionFails_def aiResolveAll_def)
  have ids: "taskId taskA = ''A''" "taskId taskB_onA = ''B''" "taskId taskC_onA = ''C''"
    by (simp_all add: taskA_def taskB_onA_def taskC_onA_def)
  from dependents_after_and_fail_fast [OF m d p, of clock0 aiRejectAll "''backend''"]
    dependents_after_and_fail_fast [OF m d p, of clock0 aiResolveAll "''backend''"]
  show ?thesis using s f g ids by auto
qed








section \<open>Tool adapter: properties\<close>

lemma mset_insertTool: "mset (insertTool cfgs x ys) = add_mset x (mset ys)"
  by (induction ys) simp_all

lemma mset_foldl_insertTool:
  "mset (foldl (\<lambda>acc x. insertTool cfgs x acc) acc xs) = mset acc + mset xs"
  by (induction xs arbitrary: acc) (simp_all add: mset_insertTool)

lemma mset_sortTools: "mset (sortTools cfgs xs) = mset xs"
  by (simp add: sortTools_def mset_foldl_insertTool)

lemma set_sortTools: "set (sortTools cfgs xs) = set xs"
  using mset_sortTools [of cfgs xs] by (rule mset_eq_setD)

lemma compare_lt_available: "compareTools cfgs x y < 0 \<Longrightarrow> available y \<Longrightarrow> available x"
  by (auto simp add: compareTools_def Let_def split: if_splits)

lemma compare_ge_available: "\<not> compareTools cfgs x y < 0 \<Longrightarrow> available x \<Longrightarrow> available y"
  by (auto simp add: compareTools_def Let_def split: if_splits)

lemma availableFirst_insertTool:
  "availableFirst ys \<Longrightarrow> availableFirst (insertTool cfgs x ys)"
proof (induction ys)
  case Nil
  show ?case by (simp add: availableFirst_def)
next
  case (Cons y ys)
  show ?case
  proof (cases "compareTools cfgs x y < 0")
    case True
    with Cons.prems show ?thesis
      by (auto simp add: availableFirst_def dest: compare_lt_available)
  next
    case False
    from Cons have ih: "availableFirst (insertTool cfgs x ys)"
      by (simp add: availableFirst_def)
    have "set (insertTool cfgs x ys) = insert x (set ys)"
      using mset_insertTool [of cfgs x ys] by (metis mset_eq_setD set_mset_add_mset_insert set_mset_mset)
    with False Cons.prems ih show ?thesis
      by (auto simp add: availableFirst_def dest: compare_ge_available)
  qed
qed

lemma availableFirst_foldl:
  "availableFirst acc \<Longrightarrow> availableFirst (foldl (\<lambda>acc x. insertTool cfgs x acc) acc xs)"
  by (induction xs arbitrary: acc) (simp_all add: availableFirst_insertTool)

lemma availableFirst_sortTools: "availableFirst (sortTools cfgs xs)"
  unfolding sortTools_def by (rule availableFirst_foldl) (simp add: availableFirst_def)

lemma coolDown_available:
  "inCooldown cd t s \<Longrightarrow> \<not> available (coolDown cd t s)"
  by (simp add: coolDown_def)

lemma inCooldown_coolDown [simp]: "inCooldown cd t (coolDown cd t s) = inCooldown cd t s"
  by (simp add: coolDown_def inCooldown_def)

text \<open>
  Claim C2, as amended. \<open>getOrderedToolPool\<close> keeps every enabled backend in the pool it
  returns. A backend whose record has \<open>lastFailed\<close> strictly within
  \<open>failureCooldownMs\<close> of the current time is in the pool with \<open>available = false\<close>,
  for this selection only; a backend outside the window is in the pool with its record as
  persisted. The pool has no unavailable entry before an available one, and the persisted
  status file is not written.
\<close>

theorem cooldown_marks_unavailable_keeps_in_pool:
  assumes "toolsConfig w = Some config"
  shows "snd (getOrderedToolPool this w) = w \<and>
         statusFile (snd (getOrderedToolPool this w)) = statusFile w \<and>
         availableFirst (fst (getOrderedToolPool this w)) \<and>
         (\<forall>s \<in> set (fst (getOrderedToolPool this w)).
            inCooldown (failureCooldownMs_a this) (dateNow w) s \<longrightarrow> \<not> available s) \<and>
         (\<forall>tc \<in> set (tools config). enabled tc \<longrightarrow>
            (if inCooldown (failureCooldownMs_a this) (dateNow w)
                  (statusOrDefault (statusFile w) (name_c tc))
             then (statusOrDefault (statusFile w) (name_c tc))\<lparr>available := False\<rparr>
                    \<in> set (fst (getOrderedToolPool this w))
             else statusOrDefault (statusFile w) (name_c tc)
                    \<in> set (fst (getOrderedToolPool this w))))"
proof -
  let ?cd = "failureCooldownMs_a this" and ?t = "dateNow w"
  let ?mark = "\<lambda>tc. coolDown ?cd ?t (statusOrDefault (statusFile w) (name_c tc))"
  have pool: "fst (getOrderedToolPool this w) =
      sortTools (tools config) (map ?mark (filter enabled (tools config)))"
    using assms by (simp add: getOrderedToolPool_def loadToolsConfig_def loadToolStatus_def)
  have same: "snd (getOrderedToolPool this w) = w"
    using assms by (simp add: getOrderedToolPool_def loadToolsConfig_def)
  have elems: "set (fst (getOrderedToolPool this w)) = ?mark ` {tc \<in> set (tools config). enabled tc}"
    by (simp add: pool set_sortTools)
  have marked: "\<forall>s \<in> set (fst (getOrderedToolPool this w)). inCooldown ?cd ?t s \<longrightarrow> \<not> available s"
    unfolding elems by (auto simp add: coolDown_def)
  have each: "\<forall>tc \<in> set (tools config). enabled tc \<longrightarrow>
            (if inCooldown ?cd ?t (statusOrDefault (statusFile w) (name_c tc))
             then (statusOrDefault (statusFile w) (name_c tc))\<lparr>available := False\<rparr>
                    \<in> set (fst (getOrderedToolPool this w))
             else statusOrDefault (statusFile w) (name_c tc)
                    \<in> set (fst (getOrderedToolPool this w)))"
    unfolding elems by (auto simp add: coolDown_def image_iff intro!: bexI)
  show ?thesis using same marked each availableFirst_sortTools [of "tools config"] pool
    by simp
qed

theorem cooldown_marks_unavailable_keeps_in_pool_witness:
  "(claudeFailedAt 999000)\<lparr>available := False\<rparr>
     \<in> set (fst (getOrderedToolPool newAICliAdapter (cooldownWorld 999000))) \<and>
   claudeFailedAt 699000 \<in> set (fst (getOrderedToolPool newAICliAdapter (cooldownWorld 699000))) \<and>
   statusFile (snd (getOrderedToolPool newAICliAdapter (cooldownWorld 999000))) =
     [claudeFailedAt 999000]"
proof -
  have c: "toolsConfig (cooldownWorld t) = Some oneToolConfig" for t
    by (simp add: cooldownWorld_def oneToolWorld_def)
  have e: "claudeCfg \<in> set (tools oneToolConfig)" "enabled claudeCfg"
    by (simp_all add: oneToolConfig_def claudeCfg_def)
  have s: "statusOrDefault (statusFile (cooldownWorld t)) (name_c claudeCfg) = claudeFailedAt t" for t
    by (simp add: statusOrDefault_def statusMapGet_def cooldownWorld_def claudeCfg_def
        claudeFailedAt_def)
  have i1: "inCooldown (failureCooldownMs_a newAICliAdapter) (dateNow (cooldownWorld 999000))
      (claudeFailedAt 999000)"
    by (simp add: inCooldown_def newAICliAdapter_def cooldownWorld_def oneToolWorld_def
        claudeFailedAt_def)
  have i2: "\<not> inCooldown (failureCooldownMs_a newAICliAdapter) (dateNow (cooldownWorld 699000))
      (claudeFailedAt 699000)"
    by (simp add: inCooldown_def newAICliAdapter_def cooldownWorld_def oneToolWorld_def
        claudeFailedAt_def)
  have f: "statusFile (cooldownWorld 999000) = [claudeFailedAt 999000]"
    by (simp add: cooldownWorld_def)
  note t1 = cooldown_marks_unavailable_keeps_in_pool [OF c [of 999000], of newAICliAdapter]
  note t2 = cooldown_marks_unavailable_keeps_in_pool [OF c [of 699000], of newAICliAdapter]
  from t1 e have
    "if inCooldown (failureCooldownMs_a newAICliAdapter) (dateNow (cooldownWorld 999000))
          (statusOrDefault (statusFile (cooldownWorld 999000)) (name_c claudeCfg))
     then (statusOrDefault (statusFile (cooldownWorld 999000)) (name_c claudeCfg))\<lparr>available := False\<rparr>
            \<in> set (fst (getOrderedToolPool newAICliAdapter (cooldownWorld 999000)))
     else statusOrDefault (statusFile (cooldownWorld 999000)) (name_c claudeCfg)
            \<in> set (fst (getOrderedToolPool newAICliAdapter (cooldownWorld 999000)))"
    by blast
  then have r1: "(claudeFailedAt 999000)\<lparr>available := False\<rparr>
     \<in> set (fst (getOrderedToolPool newAICliAdapter (cooldownWorld 999000)))"
    unfolding s using i1 by simp
  from t2 e have
    "if inCooldown (failureCooldownMs_a newAICliAdapter) (dateNow (cooldownWorld 699000))
          (statusOrDefault (statusFile (cooldownWorld 699000)) (name_c claudeCfg))
     then (statusOrDefault (statusFile (cooldownWorld 699000)) (name_c claudeCfg))\<lparr>available := False\<rparr>
            \<in> set (fst (getOrderedToolPool newAICliAdapter (cooldownWorld 699000)))
     else statusOrDefault (statusFile (cooldownWorld 699000)) (name_c claudeCfg)
            \<in> set (fst (getOrderedToolPool newAICliAdapter (cooldownWorld 699000)))"
    by blast
  then have r2: "claudeFailedAt 699000
     \<in> set (fst (getOrderedToolPool newAICliAdapter (cooldownWorld 699000)))"
    unfolding s using i2 by simp
  from t1 have r3: "statusFile (snd (getOrderedToolPool newAICliAdapter (cooldownWorld 999000))) =
      statusFile (cooldownWorld 999000)"
    by blast
  from r1 r2 r3 f show ?thesis by simp
qed

text \<open>
  Claim C2 as stated fails: the only enabled backend failed one second ago, within the
  cooldown of 300000 ms, and it is the one entry of the returned pool; \<open>execute\<close> then
  invokes it and returns its result.
\<close>

theorem cooldown_excludes_counterexample:
  "inCooldown (failureCooldownMs_a newAICliAdapter) (dateNow (cooldownWorld 999000))
     (claudeFailedAt 999000) \<and>
   fst (getOrderedToolPool newAICliAdapter (cooldownWorld 999000)) =
     [(claudeFailedAt 999000)\<lparr>available := False\<rparr>] \<and>
   fst (AICliAdapter_execute osAlwaysOk newAICliAdapter ''hi'' noOptions (cooldownWorld 999000)) =
     Inr \<lparr>exitCode = 0, output_x = ''ok'', error_x = None, duration = 20, tool = ''claude''\<rparr>"
  by (simp add: inCooldown_def newAICliAdapter_def cooldownWorld_def oneToolWorld_def
      claudeFailedAt_def getOrderedToolPool_def loadToolsConfig_def loadToolStatus_def
      oneToolConfig_def claudeCfg_def statusOrDefault_def statusMapGet_def coolDown_def
      sortTools_def AICliAdapter_execute_def Let_def noOptions_def
      ClaudeCodeAdapter_execute_def osAlwaysOk_def)

lemma isQuotaError_empty: "\<not> isQuotaError []"
  by (simp add: isQuotaError_def QUOTA_PATTERNS_def)

lemma find_updateFirst:
  "find (\<lambda>s. name s = n) (updateFirst n u ss) =
     Some (spread (case find (\<lambda>s. name s = n) ss of
                     Some s \<Rightarrow> s
                   | None \<Rightarrow> \<lparr>name = n, available = True, lastSuccess = None,
                               lastFailed = None, responseTimeMs = None, failureCount = 0\<rparr>) u)"
proof (induction ss)
  case Nil
  have "name (spread \<lparr>name = n, available = True, lastSuccess = None, lastFailed = None,
      responseTimeMs = None, failureCount = 0\<rparr> u) = n"
    by (simp add: spread_def)
  then show ?case by simp
next
  case (Cons s ss)
  have "name (spread s u) = name s" by (simp add: spread_def)
  with Cons show ?case by simp
qed

lemma name_statusOrDefault: "name (statusOrDefault statuses n) = n"
proof (cases "statusMapGet statuses n")
  case None
  then show ?thesis by (simp add: statusOrDefault_def)
next
  case (Some s)
  then have "name s = n" by (auto simp add: statusMapGet_def find_Some_iff)
  with Some show ?thesis by (simp add: statusOrDefault_def)
qed

lemma name_coolDown: "name (coolDown cd t s) = name s"
  by (simp add: coolDown_def)

lemma markFailed_record:
  "find (\<lambda>s. name s = n) (statusFile (markFailed n reason w)) = Some r \<Longrightarrow>
     available r = (reason \<noteq> ''quota'') \<and>
     lastFailed r = Some (dateNow w) \<and>
     failureCount r =
       (case find (\<lambda>s. name s = n) (statusFile w) of None \<Rightarrow> 0 | Some t \<Rightarrow> failureCount t) + 1"
  by (auto simp add: markFailed_def updateToolStatus_def saveToolStatus_def loadToolStatus_def
      find_updateFirst spread_def Let_def)

lemma markFailed_has_record:
  "\<exists>r. find (\<lambda>s. name s = n) (statusFile (markFailed n reason w)) = Some r"
  by (simp add: markFailed_def updateToolStatus_def saveToolStatus_def loadToolStatus_def
      find_updateFirst Let_def)

lemma markFailed_spawned: "spawned (markFailed n reason w) = spawned w"
  by (simp add: markFailed_def updateToolStatus_def saveToolStatus_def Let_def)

text \<open>
  Claim C3. With exactly one enabled backend, which has an adapter and is not filtered out
  by \<open>preferredTool\<close>, whose invocation fails with a text matching no quota pattern:
  \<open>execute\<close> raises \<open>All tools failed. Last error: \<dots>\<close> with that text after spawning
  exactly one process, and the backend's persisted record then has \<open>available = true\<close>
  and a \<open>failureCount\<close> one above its previous value (zero when there was no record).
\<close>

theorem single_backend_hard_error_no_failover:
  assumes cfg: "toolsConfig w = Some config" "filter enabled (tools config) = [tc]"
    and ad: "adapters this (name_c tc) = Some adapter"
    and pref: "preferredTool options = None \<or> preferredTool options = Some [] \<or>
               preferredTool options = Some (name_c tc)"
    and run: "outcome (os (spawned w) (requestFor adapter prompt (cwd options) (timeout options)))
                = RejectsWith msg"
    and nq: "\<not> isQuotaError msg"
  shows "\<exists>this' w' r.
           AICliAdapter_execute os this prompt options w =
             (Inl (Error (''All tools failed. Last error: '' @ msg)), this', w') \<and>
           spawned w' = Suc (spawned w) \<and>
           find (\<lambda>s. name s = name_c tc) (statusFile w') = Some r \<and>
           available r \<and>
           failureCount r =
             (case find (\<lambda>s. name s = name_c tc) (statusFile w) of
                None \<Rightarrow> 0 | Some t \<Rightarrow> failureCount t) + 1"
proof -
  define this' where "this' = this\<lparr>failureCooldownMs_a := failureCooldownMs config\<rparr>"
  define s0 where "s0 = coolDown (failureCooldownMs_a this') (dateNow w)
      (statusOrDefault (statusFile w) (name_c tc))"
  define pr where "pr = os (spawned w) (requestFor adapter prompt (cwd options) (timeout options))"
  define w1 where "w1 = w\<lparr>dateNow := dateNow w + took pr, spawned := Suc (spawned w)\<rparr>"
  define w2 where "w2 = markFailed (name_c tc) ''error'' w1"
  have n0: "name s0 = name_c tc" by (simp add: s0_def name_coolDown name_statusOrDefault)
  have pool: "fst (getOrderedToolPool this' w) = [s0]"
    using cfg by (simp add: getOrderedToolPool_def loadToolsConfig_def loadToolStatus_def
        sortTools_def s0_def)
  have ex: "ClaudeCodeAdapter_execute os adapter prompt (cwd options) (timeout options) w =
      (\<lparr>exitCode = 1, output_x = [], error_x = Some msg, duration = took pr, tool = ''claude''\<rparr>, w1)"
    using run by (simp add: ClaudeCodeAdapter_execute_def Let_def pr_def w1_def)
  have skip: "\<not> (case preferredTool options of None \<Rightarrow> False | Some p \<Rightarrow> p \<noteq> [] \<and> name s0 \<noteq> p)"
    using pref n0 by auto
  have ad': "adapters this' (name s0) = Some adapter" using ad n0 by (simp add: this'_def)
  have last: "(case Some msg of None \<Rightarrow> [] | Some e \<Rightarrow> if e = [] then [] else e) = msg"
    by simp
  have loop: "poolLoop os this' prompt options None [s0] w = (Inl (Some msg), w2)"
    using skip ad' ex nq n0
    by (simp add: isQuotaError_empty w2_def Let_def)
  have res: "AICliAdapter_execute os this prompt options w =
      (Inl (Error (''All tools failed. Last error: '' @ msg)), this', w2)"
    using cfg(1) pool loop
    by (simp add: AICliAdapter_execute_def loadToolsConfig_def Let_def this'_def [symmetric])
  obtain r where r: "find (\<lambda>s. name s = name_c tc) (statusFile w2) = Some r"
    unfolding w2_def using markFailed_has_record by blast
  from markFailed_record [OF r [unfolded w2_def]]
  have "available r" "failureCount r =
      (case find (\<lambda>s. name s = name_c tc) (statusFile w1) of None \<Rightarrow> 0 | Some t \<Rightarrow> failureCount t) + 1"
    by simp_all
  moreover have "statusFile w1 = statusFile w" by (simp add: w1_def)
  moreover have "spawned w2 = Suc (spawned w)" by (simp add: w2_def markFailed_spawned w1_def)
  ultimately show ?thesis using res r by auto
qed

theorem single_backend_hard_error_no_failover_witness:
  "fst (AICliAdapter_execute osBoom newAICliAdapter ''hi'' noOptions oneToolWorld) =
     Inl (Error ''All tools failed. Last error: boom'') \<and>
   spawned (snd (snd (AICliAdapter_execute osBoom newAICliAdapter ''hi'' noOptions oneToolWorld))) = 1 \<and>
   (\<exists>r. find (\<lambda>s. name s = ''claude'')
          (statusFile (snd (snd (AICliAdapter_execute osBoom newAICliAdapter ''hi'' noOptions
             oneToolWorld)))) = Some r \<and>
        available r \<and> failureCount r = 1)"
proof -
  have c: "toolsConfig oneToolWorld = Some oneToolConfig" by (simp add: oneToolWorld_def)
  have f: "filter enabled (tools oneToolConfig) = [claudeCfg]"
    by (simp add: oneToolConfig_def claudeCfg_def)
  have a: "adapters newAICliAdapter (name_c claudeCfg) =
      Some \<lparr>command_a = ''claude'', baseArgs = []\<rparr>"
    by (simp add: newAICliAdapter_def claudeCfg_def)
  have p: "preferredTool noOptions = None \<or> preferredTool noOptions = Some [] \<or>
      preferredTool noOptions = Some (name_c claudeCfg)"
    by (simp add: noOptions_def)
  have r: "outcome (osBoom (spawned oneToolWorld)
      (requestFor \<lparr>command_a = ''claude'', baseArgs = []\<rparr> ''hi'' (cwd noOptions) (timeout noOptions)))
      = RejectsWith ''boom''"
    by (simp add: osBoom_def)
  have q: "\<not> isQuotaError ''boom''"
    by (simp add: isQuotaError_def QUOTA_PATTERNS_def toLowerChar_def)
  have n: "name_c claudeCfg = ''claude''" by (simp add: claudeCfg_def)
  have e: "find (\<lambda>s. name s = ''claude'') (statusFile oneToolWorld) = None"
    "spawned oneToolWorld = 0"
    by (simp_all add: oneToolWorld_def)
  from single_backend_hard_error_no_failover [where os=osBoom and this=newAICliAdapter
      and prompt="''hi''" and options=noOptions, OF c f a p r q]
  show ?thesis unfolding n using e by auto
qed

lemma markSuccess_record:
  "\<exists>r. find (\<lambda>s. name s = n) (statusFile (markSuccess n d w)) = Some r \<and> available r"
  by (simp add: markSuccess_def updateToolStatus_def saveToolStatus_def loadToolStatus_def
      find_updateFirst spread_def)

lemma ClaudeCodeAdapter_execute_tool:
  "tool (fst (ClaudeCodeAdapter_execute os ad prompt c t w)) = ''claude''"
  by (simp add: ClaudeCodeAdapter_execute_def Let_def split: exec_outcome.splits)

lemma poolLoop_only_claude:
  assumes "adapters this = [''claude'' \<mapsto> ad]"
  shows "poolLoop os this prompt options le pool w = (Inr res, w') \<Longrightarrow>
         tool res = ''claude'' \<and>
         (\<exists>r. find (\<lambda>s. name s = ''claude'') (statusFile w') = Some r \<and> available r)"
proof (induction pool arbitrary: le w)
  case Nil
  then show ?case by simp
next
  case (Cons entry pool)
  show ?case
  proof (cases "case preferredTool options of None \<Rightarrow> False
                | Some p \<Rightarrow> p \<noteq> [] \<and> name entry \<noteq> p")
    case True
    with Cons.prems have "poolLoop os this prompt options le pool w = (Inr res, w')" by simp
    then show ?thesis by (rule Cons.IH)
  next
    case False
    note nf = this
    show ?thesis
    proof (cases "name entry = ''claude''")
      case False
      with assms have "adapters this (name entry) = None" by simp
      with nf Cons.prems have "poolLoop os this prompt options le pool w = (Inr res, w')"
        by simp
      then show ?thesis by (rule Cons.IH)
    next
      case True
      with assms have a: "adapters this (name entry) = Some ad" by simp
      obtain r1 w1 where ex:
        "ClaudeCodeAdapter_execute os ad prompt (cwd options) (timeout options) w = (r1, w1)"
        by (metis prod.exhaust)
      have t1: "tool r1 = ''claude''"
        using ClaudeCodeAdapter_execute_tool [of os ad prompt "cwd options" "timeout options" w] ex
        by simp
      show ?thesis
      proof (cases "exitCode r1 = 0")
        case True
        with nf a ex Cons.prems have "res = r1" "w' = markSuccess (name entry) (duration r1) w1"
          by auto
        with t1 \<open>name entry = ''claude''\<close> markSuccess_record [of "''claude''" "duration r1" w1]
        show ?thesis by simp
      next
        case False
        define le' where "le' = (case error_x r1 of None \<Rightarrow> output_x r1
                                  | Some e \<Rightarrow> if e = [] then output_x r1 else e)"
        show ?thesis
        proof (cases "isQuotaError (output_x r1) \<or> isQuotaError le'")
          case True
          with False nf a ex Cons.prems
          have "poolLoop os this prompt options (Some le') pool
                  (markFailed (name entry) ''quota'' w1) = (Inr res, w')"
            by (simp add: Let_def le'_def)
          then show ?thesis by (rule Cons.IH)
        next
          case q: False
          with False nf a ex Cons.prems show ?thesis
            by (simp add: Let_def le'_def)
        qed
      qed
    qed
  qed
qed

lemma only_claude_is_ever_run:
  assumes "AICliAdapter_execute os newAICliAdapter prompt options w = (Inr res, this', w')"
  shows "tool res = ''claude'' \<and>
         (\<exists>r. find (\<lambda>s. name s = ''claude'') (statusFile w') = Some r \<and> available r)"
proof -
  from assms obtain config where c: "toolsConfig w = Some config"
    by (cases "toolsConfig w") (auto simp add: AICliAdapter_execute_def loadToolsConfig_def)
  define this1 where "this1 = newAICliAdapter\<lparr>failureCooldownMs_a := failureCooldownMs config\<rparr>"
  have ad: "adapters this1 = [''claude'' \<mapsto> \<lparr>command_a = ''claude'', baseArgs = []\<rparr>]"
    by (simp add: this1_def newAICliAdapter_def)
  from assms c have
    "poolLoop os this1 prompt options None (fst (getOrderedToolPool this1 w)) w = (Inr res, w')"
    by (auto simp add: AICliAdapter_execute_def loadToolsConfig_def Let_def this1_def
        split: if_splits prod.splits sum.splits)
  from poolLoop_only_claude [OF ad this] show ?thesis .
qed

text \<open>
  Claim C1 at a configuration with the two enabled backends \<open>claude\<close> and \<open>gemini\<close>:
  the pool is \<open>[claude, gemini]\<close>, the first process fails with a quota text and any
  later process would succeed. The adapter built by the constructor has no adapter for
  \<open>gemini\<close>: \<open>execute\<close> marks \<open>claude\<close> unavailable, skips \<open>gemini\<close> and raises,
  having spawned one process.
\<close>

theorem quota_failover_finds_no_second_adapter:
  "fst (getOrderedToolPool newAICliAdapter freshWorld) =
     [\<lparr>name = ''claude'', available = True, lastSuccess = None, lastFailed = None,
       responseTimeMs = None, failureCount = 0\<rparr>,
      \<lparr>name = ''gemini'', available = True, lastSuccess = None, lastFailed = None,
       responseTimeMs = None, failureCount = 0\<rparr>] \<and>
   fst (AICliAdapter_execute osQuotaThenOk newAICliAdapter ''hi'' noOptions freshWorld) =
     Inl (Error ''All tools failed. Last error: quota exceeded'') \<and>
   snd (snd (AICliAdapter_execute osQuotaThenOk newAICliAdapter ''hi'' noOptions freshWorld)) =
     freshWorld\<lparr>statusFile :=
                   [\<lparr>name = ''claude'', available = False, lastSuccess = None,
                     lastFailed = Some 1000010, responseTimeMs = None, failureCount = 1\<rparr>],
                 dateNow := 1000010, spawned := 1\<rparr>"
  by (simp add: getOrderedToolPool_def loadToolsConfig_def loadToolStatus_def freshWorld_def
      twoToolsConfig_def claudeCfg_def geminiCfg_def statusOrDefault_def statusMapGet_def
      coolDown_def inCooldown_def sortTools_def compareTools_def priorityOf_def
      responseOrInfinity_def newAICliAdapter_def AICliAdapter_execute_def Let_def noOptions_def
      ClaudeCodeAdapter_execute_def osQuotaThenOk_def requestFor_def isQuotaError_def
      QUOTA_PATTERNS_def toLowerChar_def markFailed_def updateToolStatus_def saveToolStatus_def
      spread_def)

section \<open>Scheduler: properties\<close>

text \<open>
  Claim C9 at a store holding one pending feedback, with the default budget of three. The
  first \<open>poll\<close> lists the item, starts its handler and sets its status to
  \<open>analyzing\<close>; while that handler is awaiting \<open>feedbackHandler.execute\<close>, the timer
  calls \<open>poll\<close> again. The second invocation lists the item again (\<open>analyzing\<close> items
  are listed), finds the budget not used up and starts a handler for it, although its id
  is in \<open>activeTasks\<close>: both invocations are then inside \<open>feedbackHandler.execute\<close> for
  the same item.
\<close>

theorem overlapping_polls_dispatch_same_item_twice:
  "dispatched (occurAll slowHandlers (startedScheduler [feedbackX])
       [PollCalled, Resumed 0, Resumed 0, PollCalled, Resumed 1]) =
     [(''20240101-000000-abcde'', False), (''20240101-000000-abcde'', True)] \<and>
   polls (occurAll slowHandlers (startedScheduler [feedbackX])
       [PollCalled, Resumed 0, Resumed 0, PollCalled, Resumed 1]) =
     [AwaitFeedbackExecute feedbackX [],
      AwaitFeedbackExecute (feedbackX\<lparr>status_f := ''analyzing''\<rparr>) []] \<and>
   activeTasks (occurAll slowHandlers (startedScheduler [feedbackX])
       [PollCalled, Resumed 0, Resumed 0, PollCalled, Resumed 1]) = {''20240101-000000-abcde''}"
  by (simp add: occurAll_def startedScheduler_def feedbackX_def listPendingFeedbacks_def
      canStartTask_def beginHandling_def updateFeedbackStatus_def Let_def)

end
